theory Spec2Isabelle
  imports Main
begin

section \<open>JavaScript values used by the user actions\<close>

text \<open>
  The server actions of \<^verbatim>\<open>lib/actions/user.actions.ts\<close> are embedded as functions that
  pass the state of the outside world explicitly. A value that may be \<^verbatim>\<open>undefined\<close>
  or \<^verbatim>\<open>null\<close> is an \<open>option\<close>. A string is a list of 8-bit characters, each read as
  the code point of the same number, U+0000 to U+00FF (Basic Latin and Latin-1
  Supplement); on these strings \<open>trim\<close> and \<open>toLowerCase\<close> below do what
  JavaScript does.
\<close>

text \<open>A thrown value, as far as the code looks at it: \<^verbatim>\<open>error instanceof Error\<close>,
  \<^verbatim>\<open>error?.code\<close>, \<^verbatim>\<open>error?.message\<close>, \<^verbatim>\<open>error?.type\<close>, \<^verbatim>\<open>error?.response\<close>.\<close>

record js_error =
  is_Error :: bool
  code :: "int option"
  message :: "string option"
  etype :: "string option"
  response :: "string option"

definition new_Error :: "string \<Rightarrow> js_error" where
  "new_Error m =
     \<lparr>is_Error = True, code = None, message = Some m, etype = None, response = None\<rparr>"

text \<open>The plain objects handed to \<^verbatim>\<open>parseStringify\<close>.\<close>

datatype json = JNull | JBool bool | JStr string | JObj "(string \<times> json) list"

text \<open>\<^verbatim>\<open>parseStringify = (value) => JSON.parse(JSON.stringify(value))\<close> (lib/utils.ts):
  on an object of strings, booleans and null the round trip gives the object back.\<close>

definition parseStringify :: "json \<Rightarrow> json" where
  "parseStringify v = v"

text \<open>Truthiness of a string that may be absent: \<^verbatim>\<open>undefined\<close>, \<^verbatim>\<open>null\<close> and \<^verbatim>\<open>""\<close> are falsy.\<close>

definition truthy :: "string option \<Rightarrow> bool" where
  "truthy x = (case x of None \<Rightarrow> False | Some s \<Rightarrow> s \<noteq> [])"

text \<open>\<^verbatim>\<open>x || d\<close> on strings.\<close>

definition or_else :: "string option \<Rightarrow> string \<Rightarrow> string" where
  "or_else x d = (case x of None \<Rightarrow> d | Some s \<Rightarrow> if s \<noteq> [] then s else d)"

text \<open>\<^verbatim>\<open>String.prototype.includes\<close>: the argument occurs as a contiguous substring.\<close>

fun str_includes :: "string \<Rightarrow> string \<Rightarrow> bool" where
  "str_includes [] sub = (sub = [])"
| "str_includes (c # cs) sub = (take (length sub) (c # cs) = sub \<or> str_includes cs sub)"

text \<open>\<^verbatim>\<open>error?.message?.includes(sub)\<close>: falsy when there is no message.\<close>

definition message_includes :: "js_error \<Rightarrow> string \<Rightarrow> bool" where
  "message_includes e sub = (case message e of None \<Rightarrow> False | Some m \<Rightarrow> str_includes m sub)"

text \<open>\<^verbatim>\<open>String.prototype.toLowerCase\<close>, one character at a time: the capital letters
  U+0041 to U+005A (A to Z), U+00C0 to U+00D6 and U+00D8 to U+00DE (the accented
  capitals of Latin-1; U+00D7 is the multiplication sign) are mapped to the letter 32
  places further; every other character up to U+00FF is its own lower case.\<close>

definition lower_char :: "char \<Rightarrow> char" where
  "lower_char c =
     (let n = (of_char c :: nat)
      in if 65 \<le> n \<and> n \<le> 90 \<or> 192 \<le> n \<and> n \<le> 214 \<or> 216 \<le> n \<and> n \<le> 222
         then char_of (n + 32) else c)"

definition toLowerCase :: "string \<Rightarrow> string" where
  "toLowerCase s = map lower_char s"

text \<open>\<^verbatim>\<open>error?.message?.toLowerCase().includes(sub)\<close>.\<close>

definition lower_message_includes :: "js_error \<Rightarrow> string \<Rightarrow> bool" where
  "lower_message_includes e sub =
     (case message e of None \<Rightarrow> False | Some m \<Rightarrow> str_includes (toLowerCase m) sub)"

text \<open>\<^verbatim>\<open>String.prototype.trim\<close>: white space and line terminators are removed from both
  ends. Up to U+00FF these are tab, line feed, vertical tab, form feed, carriage
  return, space and the no-break space U+00A0.\<close>

definition is_space :: "char \<Rightarrow> bool" where
  "is_space c = (of_char c \<in> {9, 10, 11, 12, 13, 32, 160 :: nat})"

definition trim :: "string \<Rightarrow> string" where
  "trim s = rev (dropWhile is_space (rev (dropWhile is_space s)))"

section \<open>The external services\<close>

text \<open>What \<^verbatim>\<open>account.createEmailToken\<close> answers; the code reads \<^verbatim>\<open>(token as any).userId\<close>.\<close>

record token =
  token_userId :: "string option"

text \<open>What \<^verbatim>\<open>account.createSession\<close> answers: \<^verbatim>\<open>session.$id\<close> and \<^verbatim>\<open>session.secret\<close>.\<close>

record session =
  session_id :: string
  secret :: string

text \<open>What \<^verbatim>\<open>accountApi.get()\<close> answers: \<^verbatim>\<open>accountInfo.$id\<close>.\<close>

record account_info =
  account_id :: string

text \<open>The attributes of a user document (\<^verbatim>\<open>fullName\<close>, \<^verbatim>\<open>email\<close>, \<^verbatim>\<open>avatar\<close>,
  \<^verbatim>\<open>accountId\<close>), and a stored document with its \<^verbatim>\<open>$id\<close>. A stored \<^verbatim>\<open>accountId\<close> may be
  missing.\<close>

record user_data =
  doc_fullName :: string
  doc_email :: string
  doc_avatar :: string
  doc_accountId :: "string option"

record user_doc = user_data +
  doc_id :: string

text \<open>What \<^verbatim>\<open>databases.listDocuments\<close> answers.\<close>

record document_list =
  total :: int
  documents :: "user_doc list"

text \<open>\<^verbatim>\<open>Query.equal(attribute, values)\<close>.\<close>

datatype query = Query_equal string "string list"

text \<open>A cookie as \<^verbatim>\<open>cookieStore.set(name, value, options)\<close> writes it.\<close>

record cookie =
  cookie_value :: string
  path :: string
  httpOnly :: bool
  sameSite :: string
  secure :: bool
  maxAge :: nat

text \<open>
  The platform is everything user.actions.ts imports and calls: the Appwrite SDK
  (Account Directory with a state of type \<open>'d\<close>, and the users collection of the
  Profile Store), \<^verbatim>\<open>ID.unique()\<close>, and the pieces of this repository that the file uses
  without defining them (\<^verbatim>\<open>createAdminClient\<close>, \<^verbatim>\<open>createSessionClient\<close>,
  \<^verbatim>\<open>avatarPlaceholderUrl\<close>, \<^verbatim>\<open>process.env.NODE_ENV\<close>). Every operation is a
  parameter: it may fail with any error and may answer anything.
  \<^item> \<open>createAdminClient\<close>, \<open>createSessionClient\<close>: the error thrown, or \<open>None\<close> when the
    clients are returned; the session client is built from the cookies.
  \<^item> a directory operation takes the directory's state and returns what it answers
    (\<open>Inl\<close> the error thrown) and the new state;
  \<^item> a Profile Store operation does the same on the list of stored user documents.
\<close>

record 'd platform =
  createAdminClient :: "js_error option"
  createSessionClient :: "(string \<rightharpoonup> cookie) \<Rightarrow> js_error option"
  ID_unique :: "nat \<Rightarrow> string"
  avatarPlaceholderUrl :: string
  NODE_ENV :: "string option"
  createEmailToken :: "'d \<Rightarrow> string \<Rightarrow> string \<Rightarrow> (js_error + token) \<times> 'd"
  createSession :: "'d \<Rightarrow> string \<Rightarrow> string \<Rightarrow> (js_error + session) \<times> 'd"
  account_get :: "'d \<Rightarrow> string \<Rightarrow> (js_error + account_info) \<times> 'd"
  deleteSession :: "'d \<Rightarrow> string \<Rightarrow> (js_error + unit) \<times> 'd"
  listDocuments :: "user_doc list \<Rightarrow> query list \<Rightarrow> (js_error + document_list) \<times> user_doc list"
  createDocument ::
    "user_doc list \<Rightarrow> string \<Rightarrow> user_data \<Rightarrow> (js_error + user_doc) \<times> user_doc list"
  updateDocument ::
    "user_doc list \<Rightarrow> string \<Rightarrow> string \<Rightarrow> (js_error + user_doc) \<times> user_doc list"

text \<open>The calls made to the external services, in the order they are made.\<close>

datatype call =
    Call_createEmailToken string string
  | Call_createSession string string
  | Call_account_get string
  | Call_deleteSession string
  | Call_listDocuments "query list"
  | Call_createDocument string user_data
  | Call_updateDocument string string

datatype console_method = Console_log | Console_warn | Console_error

text \<open>An argument of a console call: a string, a possibly absent string or number, a
  thrown value, or the \<^verbatim>\<open>JSON.stringify\<close> of a thrown value or of a token.\<close>

datatype log_arg =
    S string
  | OptS "string option"
  | OptI "int option"
  | E js_error
  | Stringified_error js_error
  | Stringified_token token

text \<open>
  The world a server action runs in: the Account Directory, the users collection, the
  cookies of the request (the Session Carrier), the console, and the number of
  identifiers \<^verbatim>\<open>ID.unique()\<close> has generated. The field \<open>calls\<close> is not state of the
  program: it records every call to the directory and to the users collection, in
  order, so that a property can say which calls an action makes.
\<close>

record 'd world =
  directory :: 'd
  users :: "user_doc list"
  cookieStore :: "string \<rightharpoonup> cookie"
  console :: "(console_method \<times> log_arg list) list"
  calls :: "call list"
  ids_generated :: nat

definition console_out :: "console_method \<Rightarrow> log_arg list \<Rightarrow> 'd world \<Rightarrow> 'd world" where
  "console_out m args w = w\<lparr>console := console w @ [(m, args)]\<rparr>"

definition record_call :: "call \<Rightarrow> 'd world \<Rightarrow> 'd world" where
  "record_call c w = w\<lparr>calls := calls w @ [c]\<rparr>"

text \<open>\<^verbatim>\<open>ID.unique()\<close>.\<close>

definition ID_unique_call :: "'d platform \<Rightarrow> 'd world \<Rightarrow> string \<times> 'd world" where
  "ID_unique_call P w =
     (ID_unique P (ids_generated w), w\<lparr>ids_generated := Suc (ids_generated w)\<rparr>)"

text \<open>\<^verbatim>\<open>account.createEmailToken(userId, email)\<close>.\<close>

definition account_createEmailToken ::
  "'d platform \<Rightarrow> string \<Rightarrow> string \<Rightarrow> 'd world \<Rightarrow> (js_error + token) \<times> 'd world" where
  "account_createEmailToken P userId email w =
     (let (r, d) = createEmailToken P (directory w) userId email
      in (r, record_call (Call_createEmailToken userId email) (w\<lparr>directory := d\<rparr>)))"

text \<open>\<^verbatim>\<open>account.createSession(userId, secret)\<close>.\<close>

definition account_createSession ::
  "'d platform \<Rightarrow> string \<Rightarrow> string \<Rightarrow> 'd world \<Rightarrow> (js_error + session) \<times> 'd world" where
  "account_createSession P userId otp w =
     (let (r, d) = createSession P (directory w) userId otp
      in (r, record_call (Call_createSession userId otp) (w\<lparr>directory := d\<rparr>)))"

text \<open>\<^verbatim>\<open>new Account(new Client()...setSession(secret)).get()\<close>.\<close>

definition accountApi_get ::
  "'d platform \<Rightarrow> string \<Rightarrow> 'd world \<Rightarrow> (js_error + account_info) \<times> 'd world" where
  "accountApi_get P session_secret w =
     (let (r, d) = account_get P (directory w) session_secret
      in (r, record_call (Call_account_get session_secret) (w\<lparr>directory := d\<rparr>)))"

text \<open>\<^verbatim>\<open>account.deleteSession(sessionId)\<close> on the session client.\<close>

definition account_deleteSession ::
  "'d platform \<Rightarrow> string \<Rightarrow> 'd world \<Rightarrow> (js_error + unit) \<times> 'd world" where
  "account_deleteSession P sessionId w =
     (let (r, d) = deleteSession P (directory w) sessionId
      in (r, record_call (Call_deleteSession sessionId) (w\<lparr>directory := d\<rparr>)))"

text \<open>\<^verbatim>\<open>databases.listDocuments(databaseId, usersCollectionId, queries)\<close>.\<close>

definition databases_listDocuments ::
  "'d platform \<Rightarrow> query list \<Rightarrow> 'd world \<Rightarrow> (js_error + document_list) \<times> 'd world" where
  "databases_listDocuments P queries w =
     (let (r, us) = listDocuments P (users w) queries
      in (r, record_call (Call_listDocuments queries) (w\<lparr>users := us\<rparr>)))"

text \<open>\<^verbatim>\<open>databases.createDocument(databaseId, usersCollectionId, documentId, data)\<close>.\<close>

definition databases_createDocument ::
  "'d platform \<Rightarrow> string \<Rightarrow> user_data \<Rightarrow> 'd world \<Rightarrow> (js_error + user_doc) \<times> 'd world" where
  "databases_createDocument P documentId data w =
     (let (r, us) = createDocument P (users w) documentId data
      in (r, record_call (Call_createDocument documentId data) (w\<lparr>users := us\<rparr>)))"

text \<open>\<^verbatim>\<open>databases.updateDocument(databaseId, usersCollectionId, documentId, { accountId })\<close>.\<close>

definition databases_updateDocument ::
  "'d platform \<Rightarrow> string \<Rightarrow> string \<Rightarrow> 'd world \<Rightarrow> (js_error + user_doc) \<times> 'd world" where
  "databases_updateDocument P documentId accountId w =
     (let (r, us) = updateDocument P (users w) documentId accountId
      in (r, record_call (Call_updateDocument documentId accountId) (w\<lparr>users := us\<rparr>)))"

text \<open>\<^verbatim>\<open>cookieStore.set(name, value, options)\<close> and \<^verbatim>\<open>cookieStore.delete(name)\<close>.\<close>

definition cookies_set :: "string \<Rightarrow> cookie \<Rightarrow> 'd world \<Rightarrow> 'd world" where
  "cookies_set name c w = w\<lparr>cookieStore := (cookieStore w)(name \<mapsto> c)\<rparr>"

definition cookies_delete :: "string \<Rightarrow> 'd world \<Rightarrow> 'd world" where
  "cookies_delete name w = w\<lparr>cookieStore := (cookieStore w)(name := None)\<rparr>"

section \<open>The user actions\<close>

text \<open>
  An action returns its result or throws: \<open>Inl\<close> is the value thrown, \<open>Inr\<close> the value
  returned, next to the world as the action leaves it.
\<close>

text \<open>\<^verbatim>\<open>result.total > 0 ? result.documents[0] : null\<close>; \<^verbatim>\<open>result.documents[0]\<close> is
  undefined on an empty array, and the callers only test the value for truthiness.\<close>

definition first_document :: "document_list \<Rightarrow> user_doc option" where
  "first_document result =
     (if total result > 0
      then (case documents result of [] \<Rightarrow> None | d # _ \<Rightarrow> Some d)
      else None)"

text \<open>\<^verbatim>\<open>getUserByEmail\<close>.\<close>

definition getUserByEmail ::
  "'d platform \<Rightarrow> string \<Rightarrow> 'd world \<Rightarrow> (js_error + user_doc option) \<times> 'd world" where
  "getUserByEmail P email w =
     (case createAdminClient P of
        Some e \<Rightarrow> (Inl e, w)
      | None \<Rightarrow>
          (case databases_listDocuments P [Query_equal ''email'' [email]] w of
             (Inl e, w1) \<Rightarrow> (Inl e, w1)
           | (Inr result, w1) \<Rightarrow>
               (Inr (first_document result), w1)))"

text \<open>\<^verbatim>\<open>handleError\<close>: logs the error and the message, then throws the error.\<close>

definition handleError :: "js_error \<Rightarrow> string \<Rightarrow> 'd world \<Rightarrow> (js_error + unit) \<times> 'd world" where
  "handleError error msg w = (Inl error, console_out Console_log [E error, S msg] w)"

text \<open>\<^verbatim>\<open>sendEmailOTP({ email, userId })\<close>; the result is the \<^verbatim>\<open>userId\<close> of the object returned.\<close>

definition sendEmailOTP ::
  "'d platform \<Rightarrow> string \<Rightarrow> string option \<Rightarrow> 'd world \<Rightarrow> (js_error + string) \<times> 'd world" where
  "sendEmailOTP P email userId w =
     (case createAdminClient P of
        Some e \<Rightarrow> (Inl e, w)
      | None \<Rightarrow>
          (let (userIdToUse, w1) =
                 (if truthy userId then (the userId, w) else ID_unique_call P w)
           in case account_createEmailToken P userIdToUse email w1 of
                (Inr token, w2) \<Rightarrow>
                  (let actualUserId = token_userId token in
                   if \<not> truthy actualUserId
                   then (Inr userIdToUse,
                         console_out Console_warn
                           [S ''Token response doesn't contain userId, using provided userId:'',
                            S userIdToUse] w2)
                   else (Inr (the actualUserId),
                         console_out Console_log
                           [S ''Token response:'', Stringified_token token]
                           (console_out Console_log
                              [S ''Email OTP sent successfully, userId:'', OptS actualUserId,
                               S ''email:'', S email] w2)))
              | (Inl error, w2) \<Rightarrow>
                  (let errorMessage =
                         or_else (message error) ''Failed to send email OTP. Please try again.''
                   in (Inl (new_Error errorMessage),
                       console_out Console_error [S ''Error details:'', Stringified_error error]
                         (console_out Console_error
                            [S ''Error sending email OTP:'', E error] w2)))))"

text \<open>\<^verbatim>\<open>createAccount({ fullName, email })\<close>: the body of the \<^verbatim>\<open>try\<close>, then the \<^verbatim>\<open>catch\<close>.\<close>

definition createAccount_try ::
  "'d platform \<Rightarrow> string \<Rightarrow> string \<Rightarrow> 'd world \<Rightarrow> (js_error + json) \<times> 'd world" where
  "createAccount_try P fullName email w =
     (case getUserByEmail P email w of
        (Inl e, w1) \<Rightarrow> (Inl e, w1)
      | (Inr (Some existingUser), w1) \<Rightarrow>
          (Inl (new_Error
             ''An account with this email already exists. Please sign in instead.''), w1)
      | (Inr None, w1) \<Rightarrow>
          (case sendEmailOTP P email None w1 of
             (Inl e, w2) \<Rightarrow> (Inl e, w2)
           | (Inr userId, w2) \<Rightarrow>
               if userId = [] then (Inl (new_Error ''Failed to send OTP''), w2)
               else (Inr (parseStringify
                            (JObj [(''accountId'', JStr userId), (''fullName'', JStr fullName),
                                   (''email'', JStr email)])), w2)))"

definition createAccount ::
  "'d platform \<Rightarrow> string \<Rightarrow> string \<Rightarrow> 'd world \<Rightarrow> (js_error + json) \<times> 'd world" where
  "createAccount P fullName email w =
     (case createAccount_try P fullName email w of
        (Inr r, w1) \<Rightarrow> (Inr r, w1)
      | (Inl error, w1) \<Rightarrow>
          (let w2 = console_out Console_error [S ''Error creating account:'', E error] w1
           in if is_Error error then (Inl error, w2)
              else (Inl (new_Error
                     (or_else (message error) ''Failed to create account. Please try again.'')),
                    w2)))"

text \<open>The session step of \<^verbatim>\<open>verifySecret\<close> (the inner \<^verbatim>\<open>try\<close> around
  \<^verbatim>\<open>account.createSession\<close> and its \<^verbatim>\<open>catch\<close>).\<close>

definition verifySecret_createSession ::
  "'d platform \<Rightarrow> string \<Rightarrow> string \<Rightarrow> 'd world \<Rightarrow> (js_error + session) \<times> 'd world" where
  "verifySecret_createSession P accountId password w =
     (case account_createSession P accountId password w of
        (Inr session, w1) \<Rightarrow> (Inr session, w1)
      | (Inl sessionError, w1) \<Rightarrow>
          (let w2 = console_out Console_error [S ''Session creation error:'', E sessionError] w1
           in if code sessionError = Some 401
                 \<or> message_includes sessionError ''Invalid token''
                 \<or> message_includes sessionError ''Invalid''
              then (Inl (new_Error ''Invalid or expired OTP. Please request a new one.''), w2)
              else (Inl sessionError, w2)))"

text \<open>The update of a stored \<^verbatim>\<open>accountId\<close> that differs from the actual one. The source
  has this block twice (after the retried lookup, and for a user found at once);
  the two differ in the line logged on success, here \<open>done\<close>. A failed update is
  logged and nothing is thrown.\<close>

definition update_accountId ::
  "'d platform \<Rightarrow> string \<Rightarrow> user_doc \<Rightarrow> string \<Rightarrow> 'd world \<Rightarrow> 'd world" where
  "update_accountId P done existingUser actualAccountId w =
     (let currentAccountId = doc_accountId existingUser in
      if truthy currentAccountId \<and> currentAccountId \<noteq> Some actualAccountId
      then (case databases_updateDocument P (doc_id existingUser) actualAccountId w of
              (Inr _, w1) \<Rightarrow> console_out Console_log [S done] w1
            | (Inl updateError, w1) \<Rightarrow>
                console_out Console_error [S ''Failed to update accountId:'', E updateError] w1)
      else w)"

text \<open>The message of the error thrown when the user document could not be saved.\<close>

definition save_failed_message :: "js_error \<Rightarrow> string" where
  "save_failed_message dbError =
     ''Failed to save user data: '' @ or_else (message dbError) ''Unknown database error''
     @ ''. Please ensure your Appwrite collection has the correct attributes: fullName, email, avatar, and accounId (or accountId).''"

text \<open>The \<^verbatim>\<open>catch (dbError)\<close> of the document creation: look the user up again.\<close>

definition verifySecret_createFailed ::
  "'d platform \<Rightarrow> js_error \<Rightarrow> string \<Rightarrow> string \<Rightarrow> 'd world \<Rightarrow> (js_error + unit) \<times> 'd world" where
  "verifySecret_createFailed P dbError email actualAccountId w =
     (let w1 = console_out Console_error [S ''Full error:'', E dbError]
                (console_out Console_error [S ''Error type:'', OptS (etype dbError)]
                  (console_out Console_error [S ''Error code:'', OptI (code dbError)]
                    (console_out Console_error [S ''Error message:'', OptS (message dbError)]
                      (console_out Console_error [S ''Error creating user document:''] w))))
      in case getUserByEmail P email w1 of
           (Inl e, w2) \<Rightarrow> (Inl e, w2)
         | (Inr None, w2) \<Rightarrow> (Inl (new_Error (save_failed_message dbError)), w2)
         | (Inr (Some existingUser), w2) \<Rightarrow>
             (Inr (),
              update_accountId P ''Updated accountId in database'' existingUser actualAccountId
                (console_out Console_log [S ''User already exists in database, continuing...'']
                   w2)))"

text \<open>The profile step of \<^verbatim>\<open>verifySecret\<close>: from the lookup by email to the end of the
  \<^verbatim>\<open>if (!existingUser && fullName && email) ... else if (existingUser)\<close>.\<close>

definition verifySecret_profile ::
  "'d platform \<Rightarrow> string option \<Rightarrow> string option \<Rightarrow> string \<Rightarrow> 'd world
     \<Rightarrow> (js_error + unit) \<times> 'd world" where
  "verifySecret_profile P fullName email actualAccountId w =
     (case (if truthy email then getUserByEmail P (the email) w else (Inr None, w)) of
        (Inl e, w1) \<Rightarrow> (Inl e, w1)
      | (Inr existingUser, w1) \<Rightarrow>
          if existingUser = None \<and> truthy fullName \<and> truthy email
          then (let userData =
                      \<lparr>doc_fullName = trim (the fullName),
                       doc_email = toLowerCase (trim (the email)),
                       doc_avatar = avatarPlaceholderUrl P,
                       doc_accountId = Some actualAccountId\<rparr>;
                    (documentId, w2) = ID_unique_call P w1
                in case databases_createDocument P documentId userData w2 of
                     (Inr newUserDoc, w3) \<Rightarrow>
                       (Inr (),
                        console_out Console_log
                          [S ''User document created successfully in database:'',
                           S (doc_id newUserDoc)] w3)
                   | (Inl dbError, w3) \<Rightarrow>
                       verifySecret_createFailed P dbError (the email) actualAccountId w3)
          else (case existingUser of
                  Some u \<Rightarrow>
                    (Inr (),
                     update_accountId P ''Updated accountId in database for existing user''
                       u actualAccountId w1)
                | None \<Rightarrow> (Inr (), w1)))"

text \<open>The cookie that carries the session.\<close>

definition session_cookie :: "'d platform \<Rightarrow> session \<Rightarrow> cookie" where
  "session_cookie P session =
     \<lparr>cookie_value = secret session, path = ''/'', httpOnly = True, sameSite = ''lax'',
      secure = (NODE_ENV P = Some ''production''), maxAge = 60 * 60 * 24 * 30\<rparr>"

text \<open>The body of the \<^verbatim>\<open>try\<close> of \<^verbatim>\<open>verifySecret({ accountId, password, fullName, email })\<close>.\<close>

definition verifySecret_try ::
  "'d platform \<Rightarrow> string \<Rightarrow> string \<Rightarrow> string option \<Rightarrow> string option \<Rightarrow> 'd world
     \<Rightarrow> (js_error + json) \<times> 'd world" where
  "verifySecret_try P accountId password fullName email w =
     (case createAdminClient P of
        Some e \<Rightarrow> (Inl e, w)
      | None \<Rightarrow>
          (case verifySecret_createSession P accountId password
                  (console_out Console_log
                     [S ''Verifying OTP for userId:'', S accountId, S ''email:'', OptS email] w) of
             (Inl e, w1) \<Rightarrow> (Inl e, w1)
           | (Inr session, w1) \<Rightarrow>
               (case accountApi_get P (secret session) w1 of
                  (Inl e, w2) \<Rightarrow> (Inl e, w2)
                | (Inr accountInfo, w2) \<Rightarrow>
                    (let actualAccountId = account_id accountInfo;
                         w3 = console_out Console_log
                                [S ''Session created successfully, actual accountId:'',
                                 S actualAccountId, S ''original accountId:'', S accountId] w2
                     in case verifySecret_profile P fullName email actualAccountId w3 of
                          (Inl e, w4) \<Rightarrow> (Inl e, w4)
                        | (Inr _, w4) \<Rightarrow>
                            (Inr (parseStringify
                                    (JObj [(''sessionId'', JStr (session_id session)),
                                           (''success'', JBool True),
                                           (''accountId'', JStr actualAccountId)])),
                             console_out Console_log [S ''Session cookie set successfully'']
                               (cookies_set ''appwrite-session'' (session_cookie P session)
                                  w4))))))"

text \<open>The \<^verbatim>\<open>catch (error)\<close> of \<^verbatim>\<open>verifySecret\<close>: the error it throws.\<close>

definition verifySecret_catch :: "js_error \<Rightarrow> js_error" where
  "verifySecret_catch error =
     (if code error = Some 401
         \<or> lower_message_includes error ''invalid token''
         \<or> lower_message_includes error ''invalid''
      then new_Error ''Invalid or expired OTP. Please request a new one and try again.''
      else if message_includes error ''expired''
      then new_Error ''OTP has expired. Please request a new one.''
      else if is_Error error \<and> truthy (message error) then error
      else new_Error (or_else (message error) ''Invalid OTP. Please try again.''))"

definition verifySecret ::
  "'d platform \<Rightarrow> string \<Rightarrow> string \<Rightarrow> string option \<Rightarrow> string option \<Rightarrow> 'd world
     \<Rightarrow> (js_error + json) \<times> 'd world" where
  "verifySecret P accountId password fullName email w =
     (case verifySecret_try P accountId password fullName email w of
        (Inr r, w1) \<Rightarrow> (Inr r, w1)
      | (Inl error, w1) \<Rightarrow>
          (Inl (verifySecret_catch error),
           console_out Console_error [S ''Error response:'', OptS (response error)]
             (console_out Console_error [S ''Error type:'', OptS (etype error)]
               (console_out Console_error [S ''Error code:'', OptI (code error)]
                 (console_out Console_error [S ''Error verifying OTP:'', E error] w1)))))"

text \<open>
  How \<^verbatim>\<open>signOutUser\<close> ends: it returns, it throws, or \<^verbatim>\<open>redirect\<close> of next/navigation
  ends it (\<^verbatim>\<open>redirect\<close> never returns: it throws the framework's redirect signal).
\<close>

datatype completion = Returned | Threw js_error | Redirect string

definition redirect :: "string \<Rightarrow> 'd world \<Rightarrow> completion \<times> 'd world" where
  "redirect url w = (Redirect url, w)"

text \<open>\<^verbatim>\<open>try { ... } catch { ... } finally { fin }\<close>, given how the \<^verbatim>\<open>try\<close> with its
  \<^verbatim>\<open>catch\<close> ended: the \<^verbatim>\<open>finally\<close> block runs in both cases, and when it does not end
  normally its own completion replaces the pending one.\<close>

definition try_finally ::
  "(js_error + unit) \<times> 'd world \<Rightarrow> ('d world \<Rightarrow> completion \<times> 'd world)
     \<Rightarrow> completion \<times> 'd world" where
  "try_finally body fin =
     (case body of
        (r, w) \<Rightarrow>
          (case fin w of
             (Returned, w1) \<Rightarrow> ((case r of Inl e \<Rightarrow> Threw e | Inr _ \<Rightarrow> Returned), w1)
           | (c, w1) \<Rightarrow> (c, w1)))"

text \<open>\<^verbatim>\<open>signOutUser\<close>. \<^verbatim>\<open>createSessionClient\<close> is called before the \<^verbatim>\<open>try\<close>.\<close>

definition signOutUser :: "'d platform \<Rightarrow> 'd world \<Rightarrow> completion \<times> 'd world" where
  "signOutUser P w =
     (case createSessionClient P (cookieStore w) of
        Some e \<Rightarrow> (Threw e, w)
      | None \<Rightarrow>
          try_finally
            (case account_deleteSession P ''current'' w of
               (Inr _, w1) \<Rightarrow> (Inr (), cookies_delete ''appwrite-session'' w1)
             | (Inl error, w1) \<Rightarrow> handleError error ''Failed to sign out user'' w1)
            (redirect ''/sign-in''))"

text \<open>\<^verbatim>\<open>signInUser({ email })\<close>: the body of the \<^verbatim>\<open>try\<close>, then the \<^verbatim>\<open>catch\<close>.\<close>

definition signInUser_try ::
  "'d platform \<Rightarrow> string \<Rightarrow> 'd world \<Rightarrow> (js_error + json) \<times> 'd world" where
  "signInUser_try P email w =
     (case getUserByEmail P email w of
        (Inl e, w1) \<Rightarrow> (Inl e, w1)
      | (Inr None, w1) \<Rightarrow>
          (Inr (parseStringify
                  (JObj [(''accountId'', JNull),
                         (''error'', JStr ''User not found. Please sign up first.'')])),
           console_out Console_log
             [S (''Sign-in attempt for email not in database: '' @ email)] w1)
      | (Inr (Some existingUser), w1) \<Rightarrow>
          (let existingAccountId = doc_accountId existingUser in
           case sendEmailOTP P email
                  (if truthy existingAccountId then existingAccountId else None) w1 of
             (Inl e, w2) \<Rightarrow> (Inl e, w2)
           | (Inr userId, w2) \<Rightarrow>
               if userId = [] then (Inl (new_Error ''Failed to send OTP''), w2)
               else (Inr (parseStringify (JObj [(''accountId'', JStr userId)])),
                     console_out Console_log
                       [S (''OTP sent successfully for sign-in: '' @ email @ '', userId: ''
                           @ userId)] w2)))"

definition signInUser ::
  "'d platform \<Rightarrow> string \<Rightarrow> 'd world \<Rightarrow> (js_error + json) \<times> 'd world" where
  "signInUser P email w =
     (case signInUser_try P email w of
        (Inr r, w1) \<Rightarrow> (Inr r, w1)
      | (Inl error, w1) \<Rightarrow>
          (Inl (new_Error (or_else (message error) ''Failed to sign in. Please try again.'')),
           console_out Console_error [S ''Error signing in user:'', E error] w1))"

text \<open>The world in which the profile step of a verification starts, after the session was
  created and the account was read: two calls made, two lines logged.\<close>

definition before_profile ::
  "string \<Rightarrow> string \<Rightarrow> string option \<Rightarrow> session \<Rightarrow> account_info \<Rightarrow> 'd \<Rightarrow> 'd world
     \<Rightarrow> 'd world" where
  "before_profile accountId password email session accountInfo d2 w =
     w\<lparr>directory := d2,
       calls := calls w @ [Call_createSession accountId password,
                           Call_account_get (secret session)],
       console := console w @
         [(Console_log, [S ''Verifying OTP for userId:'', S accountId, S ''email:'', OptS email]),
          (Console_log, [S ''Session created successfully, actual accountId:'',
             S (account_id accountInfo), S ''original accountId:'', S accountId])]\<rparr>"

section \<open>An in-memory platform\<close>

text \<open>
  A platform to run the actions on: a directory without state that accepts the
  passcode 123456, confirms the identifier it is asked for and knows every session as
  account I1, and a users collection kept as a list, queried by exact match on the
  email. The theorems below hold for every platform; this one gives them concrete
  inputs, and single operations of it are replaced to make a call fail.
\<close>

definition AppwriteException :: "string \<Rightarrow> int \<Rightarrow> js_error" where
  "AppwriteException m c =
     \<lparr>is_Error = True, code = Some c, message = Some m, etype = None, response = None\<rparr>"

fun matches_query :: "user_doc \<Rightarrow> query \<Rightarrow> bool" where
  "matches_query u (Query_equal attribute vs) =
     (attribute = ''email'' \<and> doc_email u \<in> set vs)"

definition memory_listDocuments ::
  "user_doc list \<Rightarrow> query list \<Rightarrow> (js_error + document_list) \<times> user_doc list" where
  "memory_listDocuments us queries =
     (let found = filter (\<lambda>u. list_all (matches_query u) queries) us
      in (Inr \<lparr>total = int (length found), documents = found\<rparr>, us))"

definition memory_createDocument ::
  "user_doc list \<Rightarrow> string \<Rightarrow> user_data \<Rightarrow> (js_error + user_doc) \<times> user_doc list" where
  "memory_createDocument us documentId data =
     (let doc = \<lparr>doc_fullName = doc_fullName data, doc_email = doc_email data,
                 doc_avatar = doc_avatar data, doc_accountId = doc_accountId data,
                 doc_id = documentId\<rparr>
      in (Inr doc, us @ [doc]))"

definition memory_updateDocument ::
  "user_doc list \<Rightarrow> string \<Rightarrow> string \<Rightarrow> (js_error + user_doc) \<times> user_doc list" where
  "memory_updateDocument us documentId accountId =
     (case find (\<lambda>u. doc_id u = documentId) us of
        None \<Rightarrow> (Inl (AppwriteException ''Document with the requested ID could not be found.'' 404), us)
      | Some u \<Rightarrow>
          (Inr (u\<lparr>doc_accountId := Some accountId\<rparr>),
           map (\<lambda>v. if doc_id v = documentId then v\<lparr>doc_accountId := Some accountId\<rparr> else v) us))"

definition memory_platform :: "unit platform" where
  "memory_platform =
     \<lparr>createAdminClient = None,
      createSessionClient = (\<lambda>jar. None),
      ID_unique = (\<lambda>n. ''unique'' @ replicate n CHR ''x''),
      avatarPlaceholderUrl = ''avatar.png'',
      NODE_ENV = Some ''production'',
      createEmailToken = (\<lambda>d userId email. (Inr \<lparr>token_userId = Some userId\<rparr>, d)),
      createSession = (\<lambda>d userId otp.
         (if otp = ''123456'' then Inr \<lparr>session_id = ''S1'', secret = ''secret1''\<rparr>
          else Inl (AppwriteException ''Invalid token passed in the request.'' 401), d)),
      account_get = (\<lambda>d session_secret. (Inr \<lparr>account_id = ''I1''\<rparr>, d)),
      deleteSession = (\<lambda>d sessionId. (Inr (), d)),
      listDocuments = memory_listDocuments,
      createDocument = memory_createDocument,
      updateDocument = memory_updateDocument\<rparr>"

definition ana :: user_doc where
  "ana = \<lparr>doc_fullName = ''Ana'', doc_email = ''ana@x.com'', doc_avatar = ''avatar.png'',
          doc_accountId = Some ''I0'', doc_id = ''D1''\<rparr>"

text \<open>A world with the given user documents and cookies, and nothing logged or called yet.\<close>

definition world_of :: "user_doc list \<Rightarrow> (string \<rightharpoonup> cookie) \<Rightarrow> unit world" where
  "world_of us jar =
     \<lparr>directory = (), users = us, cookieStore = jar, console = [], calls = [],
      ids_generated = 0\<rparr>"

text \<open>The user document of Ana with an empty stored \<^verbatim>\<open>accountId\<close>.\<close>

definition blank :: user_doc where
  "blank = ana\<lparr>doc_accountId := Some []\<rparr>"

text \<open>A platform on which a concurrent verification wins: the creation of the user
  document fails, and the collection then holds the document of the winner.\<close>

definition racing_platform :: "unit platform" where
  "racing_platform =
     memory_platform\<lparr>createDocument := (\<lambda>us documentId data.
        (Inl (AppwriteException ''Document with the requested ID already exists.'' 409),
         us @ [ana]))\<rparr>"

text \<open>A platform whose users collection refuses every new document and stays as it is.\<close>

definition rejecting_platform :: "unit platform" where
  "rejecting_platform =
     memory_platform\<lparr>createDocument := (\<lambda>us documentId data.
        (Inl (AppwriteException ''Server Error'' 500), us))\<rparr>"

text \<open>A platform whose directory fails to create and to delete a session, with the
  given error.\<close>

definition failing_platform :: "js_error \<Rightarrow> unit platform" where
  "failing_platform e =
     memory_platform\<lparr>createSession := (\<lambda>d userId otp. (Inl e, d)),
                     deleteSession := (\<lambda>d sessionId. (Inl e, d))\<rparr>"

text \<open>A world in which Ana is signed in: her document is stored and the session cookie
  is set.\<close>

definition signed_in :: "unit world" where
  "signed_in =
     world_of [ana]
       [''appwrite-session'' \<mapsto>
          session_cookie memory_platform \<lparr>session_id = ''S1'', secret = ''secret1''\<rparr>]"

section \<open>Properties\<close>

lemmas world_ops = console_out_def record_call_def cookies_set_def cookies_delete_def
  ID_unique_call_def

subsection \<open>Strings\<close>

lemma str_includes_map: "str_includes s sub \<Longrightarrow> str_includes (map f s) (map f sub)"
proof (induction s)
  case Nil
  then show ?case by simp
next
  case (Cons c cs)
  show ?case
  proof (cases "take (length sub) (c # cs) = sub")
    case True
    then have "take (length (map f sub)) (map f (c # cs)) = map f sub"
      by (metis length_map take_map)
    then show ?thesis by simp
  next
    case False
    with Cons.prems have "str_includes cs sub" by simp
    then have "str_includes (map f cs) (map f sub)" by (rule Cons.IH)
    then show ?thesis by simp
  qed
qed

lemma str_includes_prefix: "str_includes s (a @ b) \<Longrightarrow> str_includes s a"
proof (induction s)
  case Nil
  then show ?case by simp
next
  case (Cons c cs)
  show ?case
  proof (cases "take (length (a @ b)) (c # cs) = a @ b")
    case True
    then have "take (length a) (take (length (a @ b)) (c # cs)) = a"
      by simp
    then have "take (length a) (c # cs) = a"
      by (simp add: min_def)
    then show ?thesis by simp
  next
    case False
    with Cons.prems have "str_includes cs (a @ b)" by simp
    then have "str_includes cs a" by (rule Cons.IH)
    then show ?thesis by simp
  qed
qed

lemma trim_latin1: "trim (CHR 0xA0 # ''Ana '') = ''Ana''"
  by code_simp

lemma toLowerCase_latin1:
  "toLowerCase [CHR ''Z'', CHR ''@'', CHR 0xC0, CHR 0xC9, CHR 0xD6, CHR 0xD7, CHR 0xD8, CHR 0xDE,
                CHR 0xDF]
     = [CHR ''z'', CHR ''@'', CHR 0xE0, CHR 0xE9, CHR 0xF6, CHR 0xD7, CHR 0xF8, CHR 0xFE,
        CHR 0xDF]"
  by code_simp

lemma lower_Invalid: "toLowerCase ''Invalid'' = ''invalid''"
  by code_simp

lemma Invalid_lower: "message_includes e ''Invalid'' \<Longrightarrow> lower_message_includes e ''invalid''"
  using str_includes_map [of _ "''Invalid''" lower_char]
  by (auto simp: message_includes_def lower_message_includes_def toLowerCase_def
        simp flip: lower_Invalid split: option.splits)

lemma inner_message_invalid:
  "lower_message_includes (new_Error ''Invalid or expired OTP. Please request a new one.'')
     ''invalid''"
  by code_simp

subsection \<open>Steps of the actions\<close>

lemma getUserByEmail_answer:
  assumes "createAdminClient P = None"
    and "listDocuments P (users w) [Query_equal ''email'' [email]] = (Inr result, us)"
  shows "getUserByEmail P email w =
           (Inr (first_document result),
            record_call (Call_listDocuments [Query_equal ''email'' [email]]) (w\<lparr>users := us\<rparr>))"
  using assms by (simp add: getUserByEmail_def databases_listDocuments_def)

lemma getUserByEmail_calls:
  "\<exists>cs. calls (snd (getUserByEmail P email w)) = calls w @ cs"
  by (simp add: getUserByEmail_def databases_listDocuments_def world_ops
        split: option.splits prod.splits sum.splits)

lemma verifySecret_session_ok:
  assumes "createSession P (directory w) accountId password = (Inr session, d1)"
  shows "verifySecret_createSession P accountId password w =
           (Inr session,
            record_call (Call_createSession accountId password) (w\<lparr>directory := d1\<rparr>))"
  using assms by (simp add: verifySecret_createSession_def account_createSession_def)

lemma verifySecret_session_failed:
  assumes "createSession P (directory w) accountId password = (Inl sessionError, d)"
  shows "\<exists>w1. verifySecret_createSession P accountId password w =
            (Inl (if code sessionError = Some 401
                     \<or> message_includes sessionError ''Invalid token''
                     \<or> message_includes sessionError ''Invalid''
                  then new_Error ''Invalid or expired OTP. Please request a new one.''
                  else sessionError), w1)
          \<and> users w1 = users w \<and> cookieStore w1 = cookieStore w
          \<and> calls w1 = calls w @ [Call_createSession accountId password]"
  using assms
  by (simp add: verifySecret_createSession_def account_createSession_def world_ops)

lemma verifySecret_createSession_Inr:
  assumes "verifySecret_createSession P accountId password w = (Inr session, w1)"
  shows "\<exists>d1. createSession P (directory w) accountId password = (Inr session, d1)"
  using assms
  by (auto simp: verifySecret_createSession_def account_createSession_def Let_def
        split: prod.splits sum.splits if_splits)

lemma accountApi_get_answer:
  assumes "account_get P (directory w) s = (r, d2)"
  shows "accountApi_get P s w = (r, record_call (Call_account_get s) (w\<lparr>directory := d2\<rparr>))"
  using assms by (simp add: accountApi_get_def)

lemma accountApi_get_Inr:
  assumes "accountApi_get P s w = (Inr accountInfo, w1)"
  shows "\<exists>d2. account_get P (directory w) s = (Inr accountInfo, d2)"
  using assms by (auto simp: accountApi_get_def split: prod.splits)

lemma before_profile_fields:
  "directory (before_profile accountId password email session accountInfo d2 w) = d2"
  "users (before_profile accountId password email session accountInfo d2 w) = users w"
  "cookieStore (before_profile accountId password email session accountInfo d2 w) = cookieStore w"
  "ids_generated (before_profile accountId password email session accountInfo d2 w)
     = ids_generated w"
  "calls (before_profile accountId password email session accountInfo d2 w)
     = calls w @ [Call_createSession accountId password, Call_account_get (secret session)]"
  by (simp_all add: before_profile_def)

lemma verifySecret_try_session_ok:
  assumes "createAdminClient P = None"
    and "createSession P (directory w) accountId password = (Inr session, d1)"
    and "account_get P d1 (secret session) = (Inr accountInfo, d2)"
  shows "verifySecret_try P accountId password fullName email w =
     (case verifySecret_profile P fullName email (account_id accountInfo)
             (before_profile accountId password email session accountInfo d2 w) of
        (Inl e, w4) \<Rightarrow> (Inl e, w4)
      | (Inr _, w4) \<Rightarrow>
          (Inr (JObj [(''sessionId'', JStr (session_id session)), (''success'', JBool True),
                      (''accountId'', JStr (account_id accountInfo))]),
           console_out Console_log [S ''Session cookie set successfully'']
             (cookies_set ''appwrite-session'' (session_cookie P session) w4)))"
proof -
  let ?w0 = "console_out Console_log
               [S ''Verifying OTP for userId:'', S accountId, S ''email:'', OptS email] w"
  have s: "createSession P (directory ?w0) accountId password = (Inr session, d1)"
    using assms(2) by (simp add: console_out_def)
  let ?w1 = "record_call (Call_createSession accountId password) (?w0\<lparr>directory := d1\<rparr>)"
  have g: "account_get P (directory ?w1) (secret session) = (Inr accountInfo, d2)"
    using assms(3) by (simp add: world_ops)
  have w: "console_out Console_log
             [S ''Session created successfully, actual accountId:'', S (account_id accountInfo),
              S ''original accountId:'', S accountId]
             (record_call (Call_account_get (secret session)) (?w1\<lparr>directory := d2\<rparr>))
           = before_profile accountId password email session accountInfo d2 w"
    by (simp add: world_ops before_profile_def)
  show ?thesis
    unfolding verifySecret_try_def parseStringify_def
    by (simp add: assms(1) verifySecret_session_ok [OF s] accountApi_get_answer [OF g] w Let_def)
qed

lemma verifySecret_try_Inr:
  assumes "verifySecret_try P accountId password fullName email w = (Inr r, w')"
  shows "\<exists>session d1 accountInfo d2.
           createAdminClient P = None
         \<and> createSession P (directory w) accountId password = (Inr session, d1)
         \<and> account_get P d1 (secret session) = (Inr accountInfo, d2)"
proof -
  let ?w0 = "console_out Console_log
               [S ''Verifying OTP for userId:'', S accountId, S ''email:'', OptS email] w"
  from assms have admin: "createAdminClient P = None"
    by (auto simp: verifySecret_try_def split: option.splits)
  from assms admin obtain session w1 where
    s: "verifySecret_createSession P accountId password ?w0 = (Inr session, w1)"
    by (auto simp: verifySecret_try_def split: prod.splits sum.splits)
  from verifySecret_createSession_Inr [OF s] obtain d1 where
    d1: "createSession P (directory w) accountId password = (Inr session, d1)"
    by (auto simp: console_out_def)
  then have "createSession P (directory ?w0) accountId password = (Inr session, d1)"
    by (simp add: console_out_def)
  note s' = verifySecret_session_ok [OF this]
  from assms admin s' obtain accountInfo w2 where
    g: "accountApi_get P (secret session)
          (record_call (Call_createSession accountId password) (?w0\<lparr>directory := d1\<rparr>))
        = (Inr accountInfo, w2)"
    by (auto simp: verifySecret_try_def split: prod.splits sum.splits)
  from accountApi_get_Inr [OF g] obtain d2 where
    "account_get P d1 (secret session) = (Inr accountInfo, d2)"
    by (auto simp: world_ops)
  with admin d1 show ?thesis by blast
qed

lemma update_accountId_stale:
  assumes "truthy (doc_accountId u)" and "doc_accountId u \<noteq> Some actual"
  shows "users (update_accountId P done u actual w)
           = snd (updateDocument P (users w) (doc_id u) actual)"
    and "calls (update_accountId P done u actual w)
           = calls w @ [Call_updateDocument (doc_id u) actual]"
    and "cookieStore (update_accountId P done u actual w) = cookieStore w"
    and "directory (update_accountId P done u actual w) = directory w"
  using assms
  by (simp_all add: update_accountId_def databases_updateDocument_def world_ops Let_def
        split: prod.splits sum.splits)

lemma update_accountId_kept:
  assumes "\<not> (truthy (doc_accountId u) \<and> doc_accountId u \<noteq> Some actual)"
  shows "update_accountId P done u actual w = w"
  using assms by (auto simp: update_accountId_def Let_def)

lemma update_accountId_calls:
  "calls (update_accountId P done u actual w) =
     calls w @ (if truthy (doc_accountId u) \<and> doc_accountId u \<noteq> Some actual
                then [Call_updateDocument (doc_id u) actual] else [])"
  and update_accountId_cookieStore:
  "cookieStore (update_accountId P done u actual w) = cookieStore w"
  by (simp_all add: update_accountId_def databases_updateDocument_def world_ops Let_def
        split: prod.splits sum.splits)

lemma verifySecret_profile_found:
  assumes "createAdminClient P = None"
    and "email \<noteq> []"
    and "listDocuments P (users w) [Query_equal ''email'' [email]] = (Inr result, us)"
    and "first_document result = Some existingUser"
  shows "verifySecret_profile P fullName (Some email) actual w =
           (Inr (),
            update_accountId P ''Updated accountId in database for existing user''
              existingUser actual
              (record_call (Call_listDocuments [Query_equal ''email'' [email]])
                 (w\<lparr>users := us\<rparr>)))"
  using assms(2,4)
  by (simp add: verifySecret_profile_def truthy_def getUserByEmail_answer [OF assms(1,3)])

lemma verifySecret_profile_create:
  assumes "createAdminClient P = None"
    and "fullName \<noteq> []" and "email \<noteq> []"
    and "listDocuments P (users w) [Query_equal ''email'' [email]] = (Inr result, us1)"
    and "first_document result = None"
    and "createDocument P us1 (ID_unique P (ids_generated w))
           \<lparr>doc_fullName = trim fullName, doc_email = toLowerCase (trim email),
            doc_avatar = avatarPlaceholderUrl P, doc_accountId = Some actual\<rparr> = (created, us2)"
  shows "verifySecret_profile P (Some fullName) (Some email) actual w =
     (let w3 = w\<lparr>ids_generated := Suc (ids_generated w), users := us2,
                 calls := calls w @
                   [Call_listDocuments [Query_equal ''email'' [email]],
                    Call_createDocument (ID_unique P (ids_generated w))
                      \<lparr>doc_fullName = trim fullName, doc_email = toLowerCase (trim email),
                       doc_avatar = avatarPlaceholderUrl P, doc_accountId = Some actual\<rparr>]\<rparr>
      in case created of
           Inr newUserDoc \<Rightarrow>
             (Inr (), console_out Console_log
                        [S ''User document created successfully in database:'',
                         S (doc_id newUserDoc)] w3)
         | Inl dbError \<Rightarrow> verifySecret_createFailed P dbError email actual w3)"
  using assms(2,3,5,6)
  by (cases created)
     (simp_all add: verifySecret_profile_def truthy_def getUserByEmail_answer [OF assms(1,4)]
        databases_createDocument_def world_ops Let_def)

lemma verifySecret_createFailed_missing:
  assumes "createAdminClient P = None"
    and "listDocuments P (users w) [Query_equal ''email'' [email]] = (Inr result, us)"
    and "first_document result = None"
  shows "\<exists>w1. verifySecret_createFailed P dbError email actual w
                = (Inl (new_Error (save_failed_message dbError)), w1)
          \<and> calls w1 = calls w @ [Call_listDocuments [Query_equal ''email'' [email]]]
          \<and> users w1 = us \<and> cookieStore w1 = cookieStore w"
proof -
  let ?w1 = "console_out Console_error [S ''Full error:'', E dbError]
                (console_out Console_error [S ''Error type:'', OptS (etype dbError)]
                  (console_out Console_error [S ''Error code:'', OptI (code dbError)]
                    (console_out Console_error [S ''Error message:'', OptS (message dbError)]
                      (console_out Console_error [S ''Error creating user document:''] w))))"
  have "listDocuments P (users ?w1) [Query_equal ''email'' [email]] = (Inr result, us)"
    using assms(2) by (simp add: console_out_def)
  from getUserByEmail_answer [OF assms(1) this] assms(3)
  show ?thesis
    by (simp add: verifySecret_createFailed_def world_ops)
qed

lemma verifySecret_createFailed_found:
  assumes "createAdminClient P = None"
    and "listDocuments P (users w) [Query_equal ''email'' [email]] = (Inr result, us)"
    and "first_document result = Some existingUser"
  shows "\<exists>w1. verifySecret_createFailed P dbError email actual w
                = (Inr (), update_accountId P ''Updated accountId in database''
                             existingUser actual w1)
          \<and> calls w1 = calls w @ [Call_listDocuments [Query_equal ''email'' [email]]]
          \<and> users w1 = us \<and> cookieStore w1 = cookieStore w"
proof -
  let ?w1 = "console_out Console_error [S ''Full error:'', E dbError]
                (console_out Console_error [S ''Error type:'', OptS (etype dbError)]
                  (console_out Console_error [S ''Error code:'', OptI (code dbError)]
                    (console_out Console_error [S ''Error message:'', OptS (message dbError)]
                      (console_out Console_error [S ''Error creating user document:''] w))))"
  have "listDocuments P (users ?w1) [Query_equal ''email'' [email]] = (Inr result, us)"
    using assms(2) by (simp add: console_out_def)
  from getUserByEmail_answer [OF assms(1) this] assms(3)
  show ?thesis
    apply (simp add: verifySecret_createFailed_def world_ops)
    apply (intro exI conjI)
       apply (rule refl)
      apply simp_all
    done
qed

lemma verifySecret_createFailed_calls:
  "\<exists>cs. calls (snd (verifySecret_createFailed P dbError email actual w)) = calls w @ cs"
proof -
  let ?w1 = "console_out Console_error [S ''Full error:'', E dbError]
                (console_out Console_error [S ''Error type:'', OptS (etype dbError)]
                  (console_out Console_error [S ''Error code:'', OptI (code dbError)]
                    (console_out Console_error [S ''Error message:'', OptS (message dbError)]
                      (console_out Console_error [S ''Error creating user document:''] w))))"
  obtain cs where "calls (snd (getUserByEmail P email ?w1)) = calls ?w1 @ cs"
    using getUserByEmail_calls by blast
  then have "calls (snd (getUserByEmail P email ?w1)) = calls w @ cs"
    by (simp add: console_out_def)
  then show ?thesis
    by (auto simp: verifySecret_createFailed_def update_accountId_calls console_out_def
          split: prod.splits sum.splits option.splits)
qed

lemma verifySecret_profile_calls:
  "\<exists>cs. calls (snd (verifySecret_profile P fullName email actual w)) = calls w @ cs"
proof -
  obtain cs where lookup:
    "calls (snd (if truthy email then getUserByEmail P (the email) w else (Inr None, w)))
       = calls w @ cs"
    using getUserByEmail_calls [of P "the email" w] by (cases "truthy email") auto
  have failed: "\<exists>cs'. calls (snd (verifySecret_createFailed P dbError (the email) actual w3))
      = calls w @ cs'" if "\<exists>cs'. calls w3 = calls w @ cs'" for dbError w3
    using that verifySecret_createFailed_calls [of P dbError "the email" actual w3]
    by auto
  show ?thesis
    using lookup
    apply (simp add: verifySecret_profile_def Let_def split: prod.splits sum.splits)
    apply (auto simp: update_accountId_calls databases_createDocument_def world_ops
        split: prod.splits sum.splits option.splits intro!: failed)
    done
qed

lemma createAccount_Inr_admin:
  assumes "createAccount P fullName email w = (Inr r, w1)"
  shows "createAdminClient P = None"
  using assms
  by (auto simp: createAccount_def createAccount_try_def getUserByEmail_def Let_def
        split: option.splits prod.splits sum.splits if_splits)

subsection \<open>The in-memory platform\<close>

lemma memory_admin: "createAdminClient memory_platform = None"
  by (simp add: memory_platform_def)

lemma memory_lookup_ana:
  "listDocuments memory_platform [ana] [Query_equal ''email'' [''ana@x.com'']]
     = (Inr \<lparr>total = 1, documents = [ana]\<rparr>, [ana])"
  by (simp add: memory_platform_def memory_listDocuments_def ana_def Let_def)

lemma memory_lookup_nobody:
  "listDocuments memory_platform [] [Query_equal ''email'' [email]]
     = (Inr \<lparr>total = 0, documents = []\<rparr>, [])"
  by (simp add: memory_platform_def memory_listDocuments_def)

lemma memory_session:
  "createSession memory_platform d accountId ''123456''
     = (Inr \<lparr>session_id = ''S1'', secret = ''secret1''\<rparr>, d)"
  by (simp add: memory_platform_def)

lemma memory_get: "account_get memory_platform d s = (Inr \<lparr>account_id = ''I1''\<rparr>, d)"
  by (simp add: memory_platform_def)

lemma memory_update_ana:
  "updateDocument memory_platform [ana] ''D1'' ''I1''
     = (Inr (ana\<lparr>doc_accountId := Some ''I1''\<rparr>), [ana\<lparr>doc_accountId := Some ''I1''\<rparr>])"
  by (simp add: memory_platform_def memory_updateDocument_def ana_def)

lemma racing_admin: "createAdminClient racing_platform = None"
  by (simp add: racing_platform_def memory_platform_def)

lemma rejecting_admin: "createAdminClient rejecting_platform = None"
  by (simp add: rejecting_platform_def memory_platform_def)

lemma save_failed_surfaced:
  "verifySecret_catch (new_Error (save_failed_message (AppwriteException ''Server Error'' 500)))
     = new_Error ''Failed to save user data: Server Error. Please ensure your Appwrite collection has the correct attributes: fullName, email, avatar, and accounId (or accountId).''"
  by code_simp

lemmas signup_run = createAccount_def createAccount_try_def getUserByEmail_def
  databases_listDocuments_def sendEmailOTP_def account_createEmailToken_def truthy_def
  parseStringify_def memory_platform_def memory_listDocuments_def world_of_def world_ops
  first_document_def Let_def

subsection \<open>Sign-out\<close>

text \<open>
  C1, as amended. Once the session client is there, \<^verbatim>\<open>signOutUser\<close> calls
  \<^verbatim>\<open>deleteSession("current")\<close> and ends in a redirect to \<^verbatim>\<open>/sign-in\<close>, whether the call
  succeeds or throws, and it makes no other call. When the deletion succeeds the
  cookie \<^verbatim>\<open>appwrite-session\<close> is deleted. When the deletion throws, the error is
  logged with ``Failed to sign out user'' and is not thrown to the caller, and the
  cookies are left as they were.
\<close>

theorem signOutUser_redirects:
  assumes "createSessionClient P (cookieStore w) = None"
    and "deleteSession P (directory w) ''current'' = (deleted, d)"
  shows "case signOutUser P w of
           (c, w') \<Rightarrow>
             c = Redirect ''/sign-in''
             \<and> calls w' = calls w @ [Call_deleteSession ''current'']
             \<and> (case deleted of
                   Inr _ \<Rightarrow>
                     cookieStore w' = (cookieStore w)(''appwrite-session'' := None)
                     \<and> console w' = console w
                 | Inl error \<Rightarrow>
                     cookieStore w' = cookieStore w
                     \<and> console w' = console w
                          @ [(Console_log, [E error, S ''Failed to sign out user''])])"
  using assms
  by (cases deleted)
     (simp_all add: signOutUser_def account_deleteSession_def try_finally_def redirect_def
        handleError_def world_ops)

theorem signOutUser_redirects_witness:
  "case signOutUser (failing_platform (AppwriteException ''Server Error'' 500)) signed_in of
     (c, w') \<Rightarrow>
       c = Redirect ''/sign-in''
       \<and> calls w' = [Call_deleteSession ''current'']
       \<and> cookieStore w' = cookieStore signed_in
       \<and> console w' = [(Console_log, [E (AppwriteException ''Server Error'' 500),
                                        S ''Failed to sign out user''])]"
proof -
  let ?P = "failing_platform (AppwriteException ''Server Error'' 500)"
  have client: "createSessionClient ?P (cookieStore signed_in) = None"
    by (simp add: failing_platform_def memory_platform_def)
  have deleted: "deleteSession ?P (directory signed_in) ''current''
      = (Inl (AppwriteException ''Server Error'' 500), ())"
    by (simp add: failing_platform_def memory_platform_def)
  from signOutUser_redirects [OF client deleted]
  show ?thesis by (simp add: signed_in_def world_of_def)
qed

text \<open>
  C1 as stated fails: on a platform whose \<^verbatim>\<open>deleteSession\<close> throws, the caller is
  redirected and the session cookie is still set (the deletion of the cookie follows
  the call inside the \<^verbatim>\<open>try\<close> and is skipped).
\<close>

theorem signOutUser_cookie_kept:
  "fst (deleteSession (failing_platform (AppwriteException ''Server Error'' 500))
          (directory signed_in) ''current'')
     = Inl (AppwriteException ''Server Error'' 500)
   \<and> fst (signOutUser (failing_platform (AppwriteException ''Server Error'' 500)) signed_in)
       = Redirect ''/sign-in''
   \<and> cookieStore
         (snd (signOutUser (failing_platform (AppwriteException ''Server Error'' 500)) signed_in))
         ''appwrite-session''
       = Some (session_cookie memory_platform \<lparr>session_id = ''S1'', secret = ''secret1''\<rparr>)"
  by (simp add: signOutUser_def account_deleteSession_def try_finally_def redirect_def
        handleError_def world_ops failing_platform_def memory_platform_def signed_in_def
        world_of_def)

subsection \<open>Verification with a wrong passcode\<close>

text \<open>
  C3. When the directory rejects the passcode (session creation fails with code 401 or
  with a message containing \<^verbatim>\<open>Invalid\<close>), \<^verbatim>\<open>verifySecret\<close> throws the error
  ``Invalid or expired OTP. Please request a new one and try again.'', the users
  collection and the cookies are as they were, and the only call made is the session
  creation: no user document is created and the session cookie is not set.
\<close>

theorem verifySecret_wrong_passcode:
  assumes "createAdminClient P = None"
    and "createSession P (directory w) accountId password = (Inl sessionError, d)"
    and "code sessionError = Some 401 \<or> message_includes sessionError ''Invalid''"
  shows "case verifySecret P accountId password fullName email w of
           (r, w') \<Rightarrow>
             r = Inl (new_Error
                   ''Invalid or expired OTP. Please request a new one and try again.'')
             \<and> users w' = users w
             \<and> cookieStore w' = cookieStore w
             \<and> calls w' = calls w @ [Call_createSession accountId password]"
proof -
  let ?w0 = "console_out Console_log
               [S ''Verifying OTP for userId:'', S accountId, S ''email:'', OptS email] w"
  have "createSession P (directory ?w0) accountId password = (Inl sessionError, d)"
    using assms(2) by (simp add: console_out_def)
  from verifySecret_session_failed [OF this] assms(3)
  obtain w1 where w1:
    "verifySecret_createSession P accountId password ?w0
       = (Inl (new_Error ''Invalid or expired OTP. Please request a new one.''), w1)"
    "users w1 = users ?w0" "cookieStore w1 = cookieStore ?w0"
    "calls w1 = calls ?w0 @ [Call_createSession accountId password]"
    by auto
  show ?thesis
    using assms(1) w1 inner_message_invalid
    by (simp add: verifySecret_def verifySecret_try_def verifySecret_catch_def console_out_def)
qed

theorem verifySecret_wrong_passcode_witness:
  "case verifySecret memory_platform ''I0'' ''000000'' (Some ''Ana'') (Some ''ana@x.com'')
          (world_of [] Map.empty) of
     (r, w') \<Rightarrow>
       r = Inl (new_Error ''Invalid or expired OTP. Please request a new one and try again.'')
       \<and> users w' = []
       \<and> cookieStore w' = Map.empty
       \<and> calls w' = [Call_createSession ''I0'' ''000000'']"
proof -
  let ?w = "world_of [] Map.empty"
  let ?e = "AppwriteException ''Invalid token passed in the request.'' 401"
  have rejected: "createSession memory_platform (directory ?w) ''I0'' ''000000'' = (Inl ?e, ())"
    by (simp add: memory_platform_def)
  have unauthorized: "code ?e = Some 401 \<or> message_includes ?e ''Invalid''"
    by (simp add: AppwriteException_def)
  from verifySecret_wrong_passcode [OF memory_admin rejected unauthorized]
  show ?thesis by (simp add: world_of_def)
qed

text \<open>
  C9, as amended. When the session creation fails, the error \<^verbatim>\<open>verifySecret\<close> throws is
  decided by the code and the message of the failure:
  \<^item> code 401, or a message containing ``invalid'' in any letter case: the error
    ``Invalid or expired OTP. Please request a new one and try again.'';
  \<^item> else a message containing ``expired'': ``OTP has expired. Please request a new one.'';
  \<^item> else an \<^verbatim>\<open>Error\<close> with a non-empty message: the failure itself, unchanged;
  \<^item> else a new \<^verbatim>\<open>Error\<close> with the message of the failure, or with ``Invalid OTP.
    Please try again.'' when the failure has no message.
\<close>

theorem verifySecret_session_error:
  assumes "createAdminClient P = None"
    and "createSession P (directory w) accountId password = (Inl sessionError, d)"
  shows "fst (verifySecret P accountId password fullName email w) =
     Inl (if code sessionError = Some 401 \<or> lower_message_includes sessionError ''invalid''
          then new_Error ''Invalid or expired OTP. Please request a new one and try again.''
          else if message_includes sessionError ''expired''
          then new_Error ''OTP has expired. Please request a new one.''
          else if is_Error sessionError \<and> truthy (message sessionError) then sessionError
          else new_Error (or_else (message sessionError) ''Invalid OTP. Please try again.''))"
proof -
  let ?w0 = "console_out Console_log
               [S ''Verifying OTP for userId:'', S accountId, S ''email:'', OptS email] w"
  let ?inner = "if code sessionError = Some 401
                     \<or> message_includes sessionError ''Invalid token''
                     \<or> message_includes sessionError ''Invalid''
                  then new_Error ''Invalid or expired OTP. Please request a new one.''
                  else sessionError"
  have "createSession P (directory ?w0) accountId password = (Inl sessionError, d)"
    using assms(2) by (simp add: console_out_def)
  from verifySecret_session_failed [OF this]
  obtain w1 where w1: "verifySecret_createSession P accountId password ?w0 = (Inl ?inner, w1)"
    by blast
  have thrown: "fst (verifySecret P accountId password fullName email w)
      = Inl (verifySecret_catch ?inner)"
    using assms(1) w1 by (simp add: verifySecret_def verifySecret_try_def)
  have token: "message_includes sessionError ''Invalid token''
      \<Longrightarrow> message_includes sessionError ''Invalid''"
    using str_includes_prefix [of _ "''Invalid''" "'' token''"]
    by (auto simp: message_includes_def split: option.splits)
  have lower_token: "lower_message_includes sessionError ''invalid token''
      \<Longrightarrow> lower_message_includes sessionError ''invalid''"
    using str_includes_prefix [of _ "''invalid''" "'' token''"]
    by (auto simp: lower_message_includes_def split: option.splits)
  show ?thesis
  proof (cases "code sessionError = Some 401 \<or> message_includes sessionError ''Invalid''")
    case True
    then have "?inner = new_Error ''Invalid or expired OTP. Please request a new one.''"
      by auto
    moreover from True have "code sessionError = Some 401
        \<or> lower_message_includes sessionError ''invalid''"
      using Invalid_lower by blast
    ultimately show ?thesis
      using inner_message_invalid by (simp add: thrown verifySecret_catch_def)
  next
    case False
    with token have "?inner = sessionError" by auto
    then show ?thesis
      using False lower_token by (auto simp: thrown verifySecret_catch_def)
  qed
qed

theorem verifySecret_session_error_witness:
  "fst (verifySecret
          (failing_platform
             (AppwriteException ''Rate limit for the current endpoint has been exceeded.'' 429))
          ''I0'' ''123456'' None None (world_of [] Map.empty))
     = Inl (AppwriteException ''Rate limit for the current endpoint has been exceeded.'' 429)"
proof -
  let ?e = "AppwriteException ''Rate limit for the current endpoint has been exceeded.'' 429"
  have admin: "createAdminClient (failing_platform ?e) = None"
    by (simp add: failing_platform_def memory_platform_def)
  have failed: "createSession (failing_platform ?e) (directory (world_of [] Map.empty))
      ''I0'' ''123456'' = (Inl ?e, ())"
    by (simp add: failing_platform_def)
  have other: "\<not> (code ?e = Some 401 \<or> lower_message_includes ?e ''invalid'')"
    "\<not> message_includes ?e ''expired''" "is_Error ?e \<and> truthy (message ?e)"
    by code_simp+
  from verifySecret_session_error [OF admin failed] other
  show ?thesis by simp
qed

text \<open>
  C9 as stated fails: a failure with code 500 and an empty message indicates no invalid
  or expired token, and it is not surfaced as it is; the caller gets the error
  ``Invalid OTP. Please try again.''.
\<close>

theorem session_error_without_message_replaced:
  "code (AppwriteException [] 500) \<noteq> Some 401
   \<and> \<not> message_includes (AppwriteException [] 500) ''Invalid''
   \<and> \<not> lower_message_includes (AppwriteException [] 500) ''invalid''
   \<and> \<not> message_includes (AppwriteException [] 500) ''expired''
   \<and> fst (verifySecret (failing_platform (AppwriteException [] 500))
            ''I0'' ''123456'' None None (world_of [] Map.empty))
       = Inl (new_Error ''Invalid OTP. Please try again.'')
   \<and> message (new_Error ''Invalid OTP. Please try again.'')
       \<noteq> message (AppwriteException [] 500)"
  by (simp add: verifySecret_def verifySecret_try_def verifySecret_createSession_def
        account_createSession_def verifySecret_catch_def failing_platform_def
        memory_platform_def AppwriteException_def message_includes_def
        lower_message_includes_def toLowerCase_def truthy_def or_else_def new_Error_def
        world_ops world_of_def)

subsection \<open>Sign-up and sign-in initiation\<close>

text \<open>
  C6. When the lookup by email finds a user document, \<^verbatim>\<open>createAccount\<close> throws the error
  ``An account with this email already exists. Please sign in instead.''; the only
  call made is the lookup, so no call goes to the Account Directory, whose state is
  as it was.
\<close>

theorem createAccount_existing_profile:
  assumes "createAdminClient P = None"
    and "listDocuments P (users w) [Query_equal ''email'' [email]] = (Inr result, us)"
    and "first_document result = Some existingUser"
  shows "case createAccount P fullName email w of
           (r, w') \<Rightarrow>
             r = Inl (new_Error
                   ''An account with this email already exists. Please sign in instead.'')
             \<and> directory w' = directory w
             \<and> calls w' = calls w @ [Call_listDocuments [Query_equal ''email'' [email]]]"
  using assms(3)
  by (simp add: createAccount_def createAccount_try_def getUserByEmail_answer [OF assms(1,2)]
        new_Error_def world_ops)

theorem createAccount_existing_profile_witness:
  "case createAccount memory_platform ''Ana'' ''ana@x.com'' (world_of [ana] Map.empty) of
     (r, w') \<Rightarrow>
       r = Inl (new_Error ''An account with this email already exists. Please sign in instead.'')
       \<and> directory w' = ()
       \<and> calls w' = [Call_listDocuments [Query_equal ''email'' [''ana@x.com'']]]"
proof -
  let ?w = "world_of [ana] Map.empty"
  have lookup: "listDocuments memory_platform (users ?w) [Query_equal ''email'' [''ana@x.com'']]
      = (Inr \<lparr>total = 1, documents = [ana]\<rparr>, [ana])"
    by (simp add: world_of_def memory_lookup_ana)
  have found: "first_document \<lparr>total = 1, documents = [ana]\<rparr> = Some ana"
    by (simp add: first_document_def)
  from createAccount_existing_profile [OF memory_admin lookup found]
  show ?thesis by (simp add: world_of_def)
qed

text \<open>
  C7. When the lookup by email finds no user document, \<^verbatim>\<open>signInUser\<close> throws nothing:
  it returns the object with \<^verbatim>\<open>accountId: null\<close> and the error text ``User not found.
  Please sign up first.'', and the only call made is the lookup.
\<close>

theorem signInUser_no_profile:
  assumes "createAdminClient P = None"
    and "listDocuments P (users w) [Query_equal ''email'' [email]] = (Inr result, us)"
    and "first_document result = None"
  shows "case signInUser P email w of
           (r, w') \<Rightarrow>
             r = Inr (JObj [(''accountId'', JNull),
                            (''error'', JStr ''User not found. Please sign up first.'')])
             \<and> directory w' = directory w
             \<and> calls w' = calls w @ [Call_listDocuments [Query_equal ''email'' [email]]]"
  using assms(3)
  by (simp add: signInUser_def signInUser_try_def getUserByEmail_answer [OF assms(1,2)]
        parseStringify_def world_ops)

theorem signInUser_no_profile_witness:
  "case signInUser memory_platform ''bob@x.com'' (world_of [] Map.empty) of
     (r, w') \<Rightarrow>
       r = Inr (JObj [(''accountId'', JNull),
                      (''error'', JStr ''User not found. Please sign up first.'')])
       \<and> directory w' = ()
       \<and> calls w' = [Call_listDocuments [Query_equal ''email'' [''bob@x.com'']]]"
proof -
  let ?w = "world_of [] Map.empty"
  have lookup: "listDocuments memory_platform (users ?w) [Query_equal ''email'' [''bob@x.com'']]
      = (Inr \<lparr>total = 0, documents = []\<rparr>, [])"
    by (simp add: world_of_def memory_lookup_nobody)
  have nobody: "first_document \<lparr>total = 0, documents = []\<rparr> = None"
    by (simp add: first_document_def)
  from signInUser_no_profile [OF memory_admin lookup nobody]
  show ?thesis by (simp add: world_of_def)
qed

subsection \<open>Successful verification\<close>

text \<open>
  C5. Whenever \<^verbatim>\<open>verifySecret\<close> returns, the session was created from the identifier and
  the passcode given, the account was then read with the secret of that session, and
  the \<^verbatim>\<open>accountId\<close> of the result is the identifier of the account read, whatever the
  identifier given was.
\<close>

theorem verifySecret_success_resolved:
  assumes "verifySecret P accountId password fullName email w = (Inr r, w')"
  shows "\<exists>session d1 accountInfo d2 rest.
           createSession P (directory w) accountId password = (Inr session, d1)
         \<and> account_get P d1 (secret session) = (Inr accountInfo, d2)
         \<and> r = JObj [(''sessionId'', JStr (session_id session)), (''success'', JBool True),
                     (''accountId'', JStr (account_id accountInfo))]
         \<and> calls w' = calls w @ Call_createSession accountId password
                         # Call_account_get (secret session) # rest"
proof -
  from assms have body: "verifySecret_try P accountId password fullName email w = (Inr r, w')"
    by (auto simp: verifySecret_def split: prod.splits sum.splits)
  from verifySecret_try_Inr [OF body] obtain session d1 accountInfo d2 where
    admin: "createAdminClient P = None"
    and s: "createSession P (directory w) accountId password = (Inr session, d1)"
    and g: "account_get P d1 (secret session) = (Inr accountInfo, d2)"
    by blast
  let ?w3 = "before_profile accountId password email session accountInfo d2 w"
  obtain x w4 where
    profile: "verifySecret_profile P fullName email (account_id accountInfo) ?w3 = (x, w4)"
    by (cases "verifySecret_profile P fullName email (account_id accountInfo) ?w3")
  from verifySecret_profile_calls [of P fullName email "account_id accountInfo" ?w3] profile
  obtain rest where "calls w4 = calls ?w3 @ rest" by auto
  then have calls4: "calls w4 = calls w @ Call_createSession accountId password
                         # Call_account_get (secret session) # rest"
    by (simp add: before_profile_fields)
  from body profile calls4
  have "r = JObj [(''sessionId'', JStr (session_id session)), (''success'', JBool True),
                  (''accountId'', JStr (account_id accountInfo))]
      \<and> calls w' = calls w @ Call_createSession accountId password
                         # Call_account_get (secret session) # rest"
    by (cases x) (auto simp: verifySecret_try_session_ok [OF admin s g] world_ops)
  with s g show ?thesis by blast
qed

theorem verifySecret_success_resolved_witness:
  "\<exists>session d1 accountInfo d2 rest.
      createSession memory_platform () ''I0'' ''123456'' = (Inr session, d1)
    \<and> account_get memory_platform d1 (secret session) = (Inr accountInfo, d2)
    \<and> JObj [(''sessionId'', JStr ''S1''), (''success'', JBool True), (''accountId'', JStr ''I1'')]
        = JObj [(''sessionId'', JStr (session_id session)), (''success'', JBool True),
                (''accountId'', JStr (account_id accountInfo))]
    \<and> calls (snd (verifySecret memory_platform ''I0'' ''123456'' None None
                     (world_of [ana] Map.empty)))
        = Call_createSession ''I0'' ''123456'' # Call_account_get (secret session) # rest"
proof -
  let ?w = "world_of [ana] Map.empty"
  let ?run = "verifySecret memory_platform ''I0'' ''123456'' None None ?w"
  let ?s = "\<lparr>session_id = ''S1'', secret = ''secret1''\<rparr>"
  let ?a = "\<lparr>account_id = ''I1''\<rparr>"
  have session: "createSession memory_platform (directory ?w) ''I0'' ''123456'' = (Inr ?s, ())"
    by (simp add: memory_session)
  have who: "account_get memory_platform () (secret ?s) = (Inr ?a, ())"
    by (simp add: memory_get)
  have "fst ?run = Inr (JObj [(''sessionId'', JStr ''S1''), (''success'', JBool True),
                              (''accountId'', JStr ''I1'')])"
    by (simp add: verifySecret_def verifySecret_try_session_ok [OF memory_admin session who]
          verifySecret_profile_def truthy_def)
  then have "?run = (Inr (JObj [(''sessionId'', JStr ''S1''), (''success'', JBool True),
                                (''accountId'', JStr ''I1'')]), snd ?run)"
    by (simp add: prod_eq_iff)
  from verifySecret_success_resolved [OF this]
  show ?thesis by (simp add: world_of_def)
qed

text \<open>
  C10. When \<^verbatim>\<open>verifySecret\<close> is given no email and the passcode verifies (the session is
  created and the account is read), the users collection is neither queried nor
  changed, whatever it holds: the calls made are the session creation and the
  account read only. The session cookie is set and the success object is returned.
\<close>

theorem verifySecret_without_email:
  assumes "createAdminClient P = None"
    and "createSession P (directory w) accountId password = (Inr session, d1)"
    and "account_get P d1 (secret session) = (Inr accountInfo, d2)"
    and "\<not> truthy email"
  shows "case verifySecret P accountId password fullName email w of
           (r, w') \<Rightarrow>
             r = Inr (JObj [(''sessionId'', JStr (session_id session)), (''success'', JBool True),
                            (''accountId'', JStr (account_id accountInfo))])
             \<and> users w' = users w
             \<and> calls w' = calls w @ [Call_createSession accountId password,
                                      Call_account_get (secret session)]
             \<and> cookieStore w' =
                 (cookieStore w)(''appwrite-session'' \<mapsto> session_cookie P session)"
  using assms(4)
  by (simp add: verifySecret_def verifySecret_try_session_ok [OF assms(1-3)]
        verifySecret_profile_def before_profile_def world_ops)

theorem verifySecret_without_email_witness:
  "case verifySecret memory_platform ''I0'' ''123456'' None None (world_of [ana] Map.empty) of
     (r, w') \<Rightarrow>
       r = Inr (JObj [(''sessionId'', JStr ''S1''), (''success'', JBool True),
                      (''accountId'', JStr ''I1'')])
       \<and> users w' = [ana]
       \<and> calls w' = [Call_createSession ''I0'' ''123456'', Call_account_get ''secret1'']
       \<and> cookieStore w' = [''appwrite-session'' \<mapsto>
            session_cookie memory_platform \<lparr>session_id = ''S1'', secret = ''secret1''\<rparr>]"
proof -
  let ?w = "world_of [ana] Map.empty"
  have session: "createSession memory_platform (directory ?w) ''I0'' ''123456''
      = (Inr \<lparr>session_id = ''S1'', secret = ''secret1''\<rparr>, ())"
    by (simp add: memory_session)
  have who: "account_get memory_platform () (secret \<lparr>session_id = ''S1'', secret = ''secret1''\<rparr>)
      = (Inr \<lparr>account_id = ''I1''\<rparr>, ())"
    by (simp add: memory_get)
  have absent: "\<not> truthy None" by (simp add: truthy_def)
  from verifySecret_without_email [OF memory_admin session who absent]
  show ?thesis by (simp add: world_of_def)
qed

subsection \<open>Verification and the user document\<close>

text \<open>
  C4. For every non-empty name and email (strings of characters up to U+00FF): suppose
  sign-up succeeds and returns an identifier, and the verification that follows with
  that identifier, the name and the email creates the session, reads the account,
  finds no user document for the email, and the collection accepts the new
  document. Then exactly one document is created: its
  email is the trimmed, lower-cased email, its name the trimmed name, its avatar the
  placeholder, its \<^verbatim>\<open>accountId\<close> the identifier of the account read. The collection
  is as that creation left it, the cookie is set and the success object is returned.
\<close>

theorem signup_then_verify_creates_profile:
  assumes "fullName \<noteq> []" and "email \<noteq> []"
    and "createAccount P fullName email w =
           (Inr (JObj [(''accountId'', JStr userId), (''fullName'', JStr fullName),
                       (''email'', JStr email)]), w1)"
    and "createSession P (directory w1) userId password = (Inr session, d1)"
    and "account_get P d1 (secret session) = (Inr accountInfo, d2)"
    and "listDocuments P (users w1) [Query_equal ''email'' [email]] = (Inr result, us1)"
    and "first_document result = None"
    and "createDocument P us1 (ID_unique P (ids_generated w1))
           \<lparr>doc_fullName = trim fullName, doc_email = toLowerCase (trim email),
            doc_avatar = avatarPlaceholderUrl P,
            doc_accountId = Some (account_id accountInfo)\<rparr> = (Inr newUserDoc, us2)"
  shows "case verifySecret P userId password (Some fullName) (Some email) w1 of
           (r, w') \<Rightarrow>
             r = Inr (JObj [(''sessionId'', JStr (session_id session)), (''success'', JBool True),
                            (''accountId'', JStr (account_id accountInfo))])
             \<and> calls w' = calls w1 @
                 [Call_createSession userId password, Call_account_get (secret session),
                  Call_listDocuments [Query_equal ''email'' [email]],
                  Call_createDocument (ID_unique P (ids_generated w1))
                    \<lparr>doc_fullName = trim fullName, doc_email = toLowerCase (trim email),
                     doc_avatar = avatarPlaceholderUrl P,
                     doc_accountId = Some (account_id accountInfo)\<rparr>]
             \<and> users w' = us2
             \<and> cookieStore w' =
                 (cookieStore w1)(''appwrite-session'' \<mapsto> session_cookie P session)"
proof -
  note admin = createAccount_Inr_admin [OF assms(3)]
  let ?w3 = "before_profile userId password (Some email) session accountInfo d2 w1"
  have lookup: "listDocuments P (users ?w3) [Query_equal ''email'' [email]] = (Inr result, us1)"
    using assms(6) by (simp add: before_profile_fields)
  have create: "createDocument P us1 (ID_unique P (ids_generated ?w3))
           \<lparr>doc_fullName = trim fullName, doc_email = toLowerCase (trim email),
            doc_avatar = avatarPlaceholderUrl P,
            doc_accountId = Some (account_id accountInfo)\<rparr> = (Inr newUserDoc, us2)"
    using assms(8) by (simp add: before_profile_fields)
  show ?thesis
    by (simp add: verifySecret_def verifySecret_try_session_ok [OF admin assms(4,5)]
          verifySecret_profile_create [OF admin assms(1,2) lookup assms(7) create]
          world_ops before_profile_fields)
qed

theorem signup_then_verify_creates_profile_witness:
  "case verifySecret memory_platform ''unique'' ''123456''
          (Some (CHR 0xA0 # ''Ana '')) (Some (CHR 0xA0 # CHR 0xC9 # ''ve@X.com ''))
          (snd (createAccount memory_platform (CHR 0xA0 # ''Ana '')
                  (CHR 0xA0 # CHR 0xC9 # ''ve@X.com '') (world_of [] Map.empty))) of
     (r, w') \<Rightarrow>
       r = Inr (JObj [(''sessionId'', JStr ''S1''), (''success'', JBool True),
                      (''accountId'', JStr ''I1'')])
       \<and> users w' = [\<lparr>doc_fullName = ''Ana'', doc_email = CHR 0xE9 # ''ve@x.com'',
                        doc_avatar = ''avatar.png'', doc_accountId = Some ''I1'',
                        doc_id = ''uniquex''\<rparr>]"
proof -
  let ?name = "CHR 0xA0 # ''Ana ''"
  let ?email = "CHR 0xA0 # CHR 0xC9 # ''ve@X.com ''"
  let ?signup = "createAccount memory_platform ?name ?email (world_of [] Map.empty)"
  let ?s = "\<lparr>session_id = ''S1'', secret = ''secret1''\<rparr>"
  let ?a = "\<lparr>account_id = ''I1''\<rparr>"
  let ?doc = "\<lparr>doc_fullName = ''Ana'', doc_email = CHR 0xE9 # ''ve@x.com'',
               doc_avatar = ''avatar.png'', doc_accountId = Some ''I1'', doc_id = ''uniquex''\<rparr>"
  have name: "?name \<noteq> []" and email: "?email \<noteq> []" by simp_all
  have "fst ?signup = Inr (JObj [(''accountId'', JStr ''unique''), (''fullName'', JStr ?name),
                                  (''email'', JStr ?email)])"
    by (simp add: signup_run)
  then have signup: "?signup = (Inr (JObj [(''accountId'', JStr ''unique''),
      (''fullName'', JStr ?name), (''email'', JStr ?email)]), snd ?signup)"
    by (simp add: prod_eq_iff)
  have stored: "users (snd ?signup) = []" and ids: "ids_generated (snd ?signup) = Suc 0"
    by (simp_all add: signup_run)
  have session: "createSession memory_platform (directory (snd ?signup)) ''unique'' ''123456''
      = (Inr ?s, ())"
    by (simp add: memory_session)
  have who: "account_get memory_platform () (secret ?s) = (Inr ?a, ())"
    by (simp add: memory_get)
  have lookup: "listDocuments memory_platform (users (snd ?signup))
        [Query_equal ''email'' [?email]] = (Inr \<lparr>total = 0, documents = []\<rparr>, [])"
    by (simp add: stored memory_lookup_nobody)
  have nobody: "first_document \<lparr>total = 0, documents = []\<rparr> = None"
    by (simp add: first_document_def)
  have trimmed: "trim ?name = ''Ana''"
    by code_simp
  have lowered: "toLowerCase (trim ?email) = CHR 0xE9 # ''ve@x.com''"
    by code_simp
  have create: "createDocument memory_platform []
        (ID_unique memory_platform (ids_generated (snd ?signup)))
        \<lparr>doc_fullName = trim ?name, doc_email = toLowerCase (trim ?email),
         doc_avatar = avatarPlaceholderUrl memory_platform,
         doc_accountId = Some (account_id ?a)\<rparr> = (Inr ?doc, [?doc])"
  proof -
    have docid: "ID_unique memory_platform (ids_generated (snd ?signup)) = ''uniquex''"
      by (simp only: ids) (simp add: memory_platform_def)
    have store: "createDocument memory_platform = memory_createDocument"
      and avatar: "avatarPlaceholderUrl memory_platform = ''avatar.png''"
      by (simp_all add: memory_platform_def)
    show ?thesis
      by (simp add: docid trimmed lowered store avatar memory_createDocument_def Let_def)
  qed
  from signup_then_verify_creates_profile
    [OF name email signup session who lookup nobody create]
  show ?thesis by (simp split: prod.splits)
qed

text \<open>
  C2, as amended. When the lookup by email finds a user document whose stored
  \<^verbatim>\<open>accountId\<close> is not empty and differs from the identifier of the account read,
  \<^verbatim>\<open>verifySecret\<close> calls \<^verbatim>\<open>updateDocument\<close> on that document with the identifier read, and
  whatever the update answers, an updated document or an error, the cookie is set
  and the success object with the identifier read is returned.
\<close>

theorem verifySecret_stale_accountId:
  assumes "createAdminClient P = None"
    and "createSession P (directory w) accountId password = (Inr session, d1)"
    and "account_get P d1 (secret session) = (Inr accountInfo, d2)"
    and "email \<noteq> []"
    and "listDocuments P (users w) [Query_equal ''email'' [email]] = (Inr result, us1)"
    and "first_document result = Some existingUser"
    and "truthy (doc_accountId existingUser)"
    and "doc_accountId existingUser \<noteq> Some (account_id accountInfo)"
    and "updateDocument P us1 (doc_id existingUser) (account_id accountInfo) = (updated, us2)"
  shows "case verifySecret P accountId password fullName (Some email) w of
           (r, w') \<Rightarrow>
             r = Inr (JObj [(''sessionId'', JStr (session_id session)), (''success'', JBool True),
                            (''accountId'', JStr (account_id accountInfo))])
             \<and> calls w' = calls w @
                 [Call_createSession accountId password, Call_account_get (secret session),
                  Call_listDocuments [Query_equal ''email'' [email]],
                  Call_updateDocument (doc_id existingUser) (account_id accountInfo)]
             \<and> users w' = us2
             \<and> cookieStore w' =
                 (cookieStore w)(''appwrite-session'' \<mapsto> session_cookie P session)"
proof -
  let ?w3 = "before_profile accountId password (Some email) session accountInfo d2 w"
  let ?w4 = "record_call (Call_listDocuments [Query_equal ''email'' [email]]) (?w3\<lparr>users := us1\<rparr>)"
  have lookup: "listDocuments P (users ?w3) [Query_equal ''email'' [email]] = (Inr result, us1)"
    using assms(5) by (simp add: before_profile_fields)
  note step = verifySecret_profile_found [OF assms(1,4) lookup assms(6)]
  note after = update_accountId_stale [OF assms(7,8)]
  show ?thesis
    by (simp add: verifySecret_def verifySecret_try_session_ok [OF assms(1-3)] step after
          world_ops before_profile_fields assms(9))
qed

theorem verifySecret_stale_accountId_witness:
  "case verifySecret memory_platform ''I0'' ''123456'' None (Some ''ana@x.com'')
          (world_of [ana] Map.empty) of
     (r, w') \<Rightarrow>
       r = Inr (JObj [(''sessionId'', JStr ''S1''), (''success'', JBool True),
                      (''accountId'', JStr ''I1'')])
       \<and> calls w' =
           [Call_createSession ''I0'' ''123456'', Call_account_get ''secret1'',
            Call_listDocuments [Query_equal ''email'' [''ana@x.com'']],
            Call_updateDocument ''D1'' ''I1'']
       \<and> users w' = [ana\<lparr>doc_accountId := Some ''I1''\<rparr>]
       \<and> cookieStore w' = [''appwrite-session'' \<mapsto>
            session_cookie memory_platform \<lparr>session_id = ''S1'', secret = ''secret1''\<rparr>]"
proof -
  let ?w = "world_of [ana] Map.empty"
  let ?s = "\<lparr>session_id = ''S1'', secret = ''secret1''\<rparr>"
  let ?a = "\<lparr>account_id = ''I1''\<rparr>"
  have session: "createSession memory_platform (directory ?w) ''I0'' ''123456'' = (Inr ?s, ())"
    by (simp add: memory_session)
  have who: "account_get memory_platform () (secret ?s) = (Inr ?a, ())"
    by (simp add: memory_get)
  have email: "''ana@x.com'' \<noteq> []" by simp
  have lookup: "listDocuments memory_platform (users ?w) [Query_equal ''email'' [''ana@x.com'']]
      = (Inr \<lparr>total = 1, documents = [ana]\<rparr>, [ana])"
    by (simp add: world_of_def memory_lookup_ana)
  have found: "first_document \<lparr>total = 1, documents = [ana]\<rparr> = Some ana"
    by (simp add: first_document_def)
  have stored: "truthy (doc_accountId ana)" by (simp add: ana_def truthy_def)
  have stale: "doc_accountId ana \<noteq> Some (account_id ?a)" by (simp add: ana_def)
  have update: "updateDocument memory_platform [ana] (doc_id ana) (account_id ?a)
      = (Inr (ana\<lparr>doc_accountId := Some ''I1''\<rparr>), [ana\<lparr>doc_accountId := Some ''I1''\<rparr>])"
    using memory_update_ana by (simp add: ana_def)
  from verifySecret_stale_accountId
    [OF memory_admin session who email lookup found stored stale update]
  show ?thesis by (simp add: world_of_def ana_def)
qed

text \<open>
  C2 as stated fails: a user document whose stored \<^verbatim>\<open>accountId\<close> is the empty string
  differs from the identifier read, and no update is made; the document is as it was
  after the verification has succeeded.
\<close>

theorem verifySecret_blank_accountId_kept:
  "fst (listDocuments memory_platform [blank] [Query_equal ''email'' [''ana@x.com'']])
     = Inr \<lparr>total = 1, documents = [blank]\<rparr>
   \<and> doc_accountId blank \<noteq> Some ''I1''
   \<and> fst (verifySecret memory_platform ''I0'' ''123456'' None (Some ''ana@x.com'')
            (world_of [blank] Map.empty))
       = Inr (JObj [(''sessionId'', JStr ''S1''), (''success'', JBool True),
                    (''accountId'', JStr ''I1'')])
   \<and> calls (snd (verifySecret memory_platform ''I0'' ''123456'' None (Some ''ana@x.com'')
                   (world_of [blank] Map.empty)))
       = [Call_createSession ''I0'' ''123456'', Call_account_get ''secret1'',
          Call_listDocuments [Query_equal ''email'' [''ana@x.com'']]]
   \<and> users (snd (verifySecret memory_platform ''I0'' ''123456'' None (Some ''ana@x.com'')
                   (world_of [blank] Map.empty)))
       = [blank]"
proof -
  let ?w = "world_of [blank] Map.empty"
  let ?s = "\<lparr>session_id = ''S1'', secret = ''secret1''\<rparr>"
  let ?a = "\<lparr>account_id = ''I1''\<rparr>"
  have lookup: "listDocuments memory_platform [blank] [Query_equal ''email'' [''ana@x.com'']]
      = (Inr \<lparr>total = 1, documents = [blank]\<rparr>, [blank])"
    by (simp add: memory_platform_def memory_listDocuments_def blank_def ana_def Let_def)
  have session: "createSession memory_platform (directory ?w) ''I0'' ''123456'' = (Inr ?s, ())"
    by (simp add: memory_session)
  have who: "account_get memory_platform () (secret ?s) = (Inr ?a, ())"
    by (simp add: memory_get)
  have lookup': "listDocuments memory_platform
        (users (before_profile ''I0'' ''123456'' (Some ''ana@x.com'') ?s ?a () ?w))
        [Query_equal ''email'' [''ana@x.com'']]
      = (Inr \<lparr>total = 1, documents = [blank]\<rparr>, [blank])"
    by (simp add: before_profile_fields world_of_def lookup)
  have found: "first_document \<lparr>total = 1, documents = [blank]\<rparr> = Some blank"
    by (simp add: first_document_def)
  have email: "''ana@x.com'' \<noteq> []" by simp
  have kept: "\<not> (truthy (doc_accountId blank) \<and> doc_accountId blank \<noteq> Some ''I1'')"
    by (simp add: blank_def truthy_def)
  show ?thesis
    by (simp add: verifySecret_def verifySecret_try_session_ok [OF memory_admin session who]
          verifySecret_profile_found [OF memory_admin email lookup' found]
          update_accountId_kept [OF kept] lookup world_ops before_profile_fields)
       (simp add: world_of_def blank_def)
qed

text \<open>
  C8. On the sign-up path, when the creation of the user document fails, the users
  collection is queried by email once more, and only once. When that query finds a
  document, the verification goes on as for a user found at first (an update of a
  stale \<^verbatim>\<open>accountId\<close>, the cookie, the success object). When it finds none, the error
  ``Failed to save user data: ...'' is thrown to the \<^verbatim>\<open>catch\<close> of \<^verbatim>\<open>verifySecret\<close>, no
  cookie is set, and nothing more is called.
\<close>

theorem verifySecret_create_failed:
  assumes "createAdminClient P = None"
    and "createSession P (directory w) accountId password = (Inr session, d1)"
    and "account_get P d1 (secret session) = (Inr accountInfo, d2)"
    and "fullName \<noteq> []" and "email \<noteq> []"
    and "listDocuments P (users w) [Query_equal ''email'' [email]] = (Inr result, us1)"
    and "first_document result = None"
    and "userData = \<lparr>doc_fullName = trim fullName, doc_email = toLowerCase (trim email),
            doc_avatar = avatarPlaceholderUrl P,
            doc_accountId = Some (account_id accountInfo)\<rparr>"
    and "createDocument P us1 (ID_unique P (ids_generated w)) userData = (Inl dbError, us2)"
    and "listDocuments P us2 [Query_equal ''email'' [email]] = (Inr again, us3)"
  shows "case verifySecret P accountId password (Some fullName) (Some email) w of
           (r, w') \<Rightarrow>
             (case first_document again of
                Some existingUser \<Rightarrow>
                  r = Inr (JObj [(''sessionId'', JStr (session_id session)),
                                 (''success'', JBool True),
                                 (''accountId'', JStr (account_id accountInfo))])
                  \<and> cookieStore w' =
                      (cookieStore w)(''appwrite-session'' \<mapsto> session_cookie P session)
                  \<and> calls w' = calls w @
                      [Call_createSession accountId password, Call_account_get (secret session),
                       Call_listDocuments [Query_equal ''email'' [email]],
                       Call_createDocument (ID_unique P (ids_generated w)) userData,
                       Call_listDocuments [Query_equal ''email'' [email]]]
                      @ (if truthy (doc_accountId existingUser)
                            \<and> doc_accountId existingUser \<noteq> Some (account_id accountInfo)
                         then [Call_updateDocument (doc_id existingUser) (account_id accountInfo)]
                         else [])
              | None \<Rightarrow>
                  r = Inl (verifySecret_catch (new_Error (save_failed_message dbError)))
                  \<and> cookieStore w' = cookieStore w
                  \<and> users w' = us3
                  \<and> calls w' = calls w @
                      [Call_createSession accountId password, Call_account_get (secret session),
                       Call_listDocuments [Query_equal ''email'' [email]],
                       Call_createDocument (ID_unique P (ids_generated w)) userData,
                       Call_listDocuments [Query_equal ''email'' [email]]])"
proof -
  let ?actual = "account_id accountInfo"
  let ?w3 = "before_profile accountId password (Some email) session accountInfo d2 w"
  let ?w4 = "?w3\<lparr>ids_generated := Suc (ids_generated ?w3), users := us2,
                 calls := calls ?w3 @
                   [Call_listDocuments [Query_equal ''email'' [email]],
                    Call_createDocument (ID_unique P (ids_generated ?w3))
                      \<lparr>doc_fullName = trim fullName, doc_email = toLowerCase (trim email),
                       doc_avatar = avatarPlaceholderUrl P, doc_accountId = Some ?actual\<rparr>]\<rparr>"
  have lookup: "listDocuments P (users ?w3) [Query_equal ''email'' [email]] = (Inr result, us1)"
    using assms(6) by (simp add: before_profile_fields)
  have create: "createDocument P us1 (ID_unique P (ids_generated ?w3))
           \<lparr>doc_fullName = trim fullName, doc_email = toLowerCase (trim email),
            doc_avatar = avatarPlaceholderUrl P, doc_accountId = Some ?actual\<rparr>
         = (Inl dbError, us2)"
    using assms(8,9) by (simp add: before_profile_fields)
  have profile: "verifySecret_profile P (Some fullName) (Some email) ?actual ?w3
      = verifySecret_createFailed P dbError email ?actual ?w4"
    using verifySecret_profile_create [OF assms(1,4,5) lookup assms(7) create] by simp
  have requery: "listDocuments P (users ?w4) [Query_equal ''email'' [email]] = (Inr again, us3)"
    using assms(10) by simp
  have calls4: "calls ?w4 = calls w @
      [Call_createSession accountId password, Call_account_get (secret session),
       Call_listDocuments [Query_equal ''email'' [email]],
       Call_createDocument (ID_unique P (ids_generated w)) userData]"
    using assms(8) by (simp add: before_profile_fields)
  have jar4: "cookieStore ?w4 = cookieStore w"
    by (simp add: before_profile_fields)
  show ?thesis
  proof (cases "first_document again")
    case None
    from verifySecret_createFailed_missing [OF assms(1) requery None, of dbError ?actual]
    obtain w5 where
      "verifySecret_createFailed P dbError email ?actual ?w4
         = (Inl (new_Error (save_failed_message dbError)), w5)"
      "calls w5 = calls ?w4 @ [Call_listDocuments [Query_equal ''email'' [email]]]"
      "users w5 = us3" "cookieStore w5 = cookieStore ?w4"
      by blast
    with None calls4 jar4 show ?thesis
      by (simp add: verifySecret_def verifySecret_try_session_ok [OF assms(1-3)] profile
            console_out_def)
  next
    case (Some existingUser)
    from verifySecret_createFailed_found [OF assms(1) requery Some, of dbError ?actual]
    obtain w5 where
      "verifySecret_createFailed P dbError email ?actual ?w4
         = (Inr (), update_accountId P ''Updated accountId in database''
                      existingUser ?actual w5)"
      "calls w5 = calls ?w4 @ [Call_listDocuments [Query_equal ''email'' [email]]]"
      "users w5 = us3" "cookieStore w5 = cookieStore ?w4"
      by blast
    with Some calls4 jar4 show ?thesis
      by (simp add: verifySecret_def verifySecret_try_session_ok [OF assms(1-3)] profile
            console_out_def cookies_set_def update_accountId_calls update_accountId_cookieStore)
  qed
qed

theorem verifySecret_create_failed_witness:
  "(case verifySecret racing_platform ''I1'' ''123456'' (Some ''Ana'') (Some ''ana@x.com'')
          (world_of [] Map.empty) of
     (r, w') \<Rightarrow>
       r = Inr (JObj [(''sessionId'', JStr ''S1''), (''success'', JBool True),
                      (''accountId'', JStr ''I1'')])
       \<and> cookieStore w' = [''appwrite-session'' \<mapsto>
            session_cookie racing_platform \<lparr>session_id = ''S1'', secret = ''secret1''\<rparr>]
       \<and> calls w' =
           [Call_createSession ''I1'' ''123456'', Call_account_get ''secret1'',
            Call_listDocuments [Query_equal ''email'' [''ana@x.com'']],
            Call_createDocument ''unique''
              \<lparr>doc_fullName = trim ''Ana'', doc_email = toLowerCase (trim ''ana@x.com''),
               doc_avatar = ''avatar.png'', doc_accountId = Some ''I1''\<rparr>,
            Call_listDocuments [Query_equal ''email'' [''ana@x.com'']],
            Call_updateDocument ''D1'' ''I1''])
   \<and> (case verifySecret rejecting_platform ''I1'' ''123456'' (Some ''Ana'') (Some ''ana@x.com'')
           (world_of [] Map.empty) of
      (r, w') \<Rightarrow>
        r = Inl (new_Error ''Failed to save user data: Server Error. Please ensure your Appwrite collection has the correct attributes: fullName, email, avatar, and accounId (or accountId).'')
        \<and> cookieStore w' = Map.empty
        \<and> users w' = []
        \<and> calls w' =
            [Call_createSession ''I1'' ''123456'', Call_account_get ''secret1'',
             Call_listDocuments [Query_equal ''email'' [''ana@x.com'']],
             Call_createDocument ''unique''
               \<lparr>doc_fullName = trim ''Ana'', doc_email = toLowerCase (trim ''ana@x.com''),
                doc_avatar = ''avatar.png'', doc_accountId = Some ''I1''\<rparr>,
             Call_listDocuments [Query_equal ''email'' [''ana@x.com'']]])"
proof -
  have won:
    "case verifySecret racing_platform ''I1'' ''123456'' (Some ''Ana'') (Some ''ana@x.com'')
          (world_of [] Map.empty) of
     (r, w') \<Rightarrow>
       r = Inr (JObj [(''sessionId'', JStr ''S1''), (''success'', JBool True),
                      (''accountId'', JStr ''I1'')])
       \<and> cookieStore w' = [''appwrite-session'' \<mapsto>
            session_cookie racing_platform \<lparr>session_id = ''S1'', secret = ''secret1''\<rparr>]
       \<and> calls w' =
           [Call_createSession ''I1'' ''123456'', Call_account_get ''secret1'',
            Call_listDocuments [Query_equal ''email'' [''ana@x.com'']],
            Call_createDocument ''unique''
              \<lparr>doc_fullName = trim ''Ana'', doc_email = toLowerCase (trim ''ana@x.com''),
               doc_avatar = ''avatar.png'', doc_accountId = Some ''I1''\<rparr>,
            Call_listDocuments [Query_equal ''email'' [''ana@x.com'']],
            Call_updateDocument ''D1'' ''I1'']"
  proof -
    let ?w = "world_of [] Map.empty"
    let ?s = "\<lparr>session_id = ''S1'', secret = ''secret1''\<rparr>"
    let ?a = "\<lparr>account_id = ''I1''\<rparr>"
    let ?data = "\<lparr>doc_fullName = trim ''Ana'', doc_email = toLowerCase (trim ''ana@x.com''),
        doc_avatar = avatarPlaceholderUrl racing_platform, doc_accountId = Some (account_id ?a)\<rparr>"
    have name: "''Ana'' \<noteq> []" and email: "''ana@x.com'' \<noteq> []" by simp_all
    have session: "createSession racing_platform (directory ?w) ''I1'' ''123456'' = (Inr ?s, ())"
      by (simp add: racing_platform_def memory_platform_def)
    have who: "account_get racing_platform () (secret ?s) = (Inr ?a, ())"
      by (simp add: racing_platform_def memory_platform_def)
    have lookup: "listDocuments racing_platform (users ?w) [Query_equal ''email'' [''ana@x.com'']]
        = (Inr \<lparr>total = 0, documents = []\<rparr>, [])"
      by (simp add: racing_platform_def memory_platform_def memory_listDocuments_def world_of_def)
    have nobody: "first_document \<lparr>total = 0, documents = []\<rparr> = None"
      by (simp add: first_document_def)
    have lost: "createDocument racing_platform [] (ID_unique racing_platform (ids_generated ?w)) ?data
        = (Inl (AppwriteException ''Document with the requested ID already exists.'' 409), [ana])"
      by (simp add: racing_platform_def)
    have again: "listDocuments racing_platform [ana] [Query_equal ''email'' [''ana@x.com'']]
        = (Inr \<lparr>total = 1, documents = [ana]\<rparr>, [ana])"
      using memory_lookup_ana by (simp add: racing_platform_def memory_platform_def)
    have found: "first_document \<lparr>total = 1, documents = [ana]\<rparr> = Some ana"
      by (simp add: first_document_def)
    from verifySecret_create_failed
      [OF racing_admin session who name email lookup nobody refl lost again]
    show ?thesis
      by (simp add: found world_of_def)
         (simp add: ana_def truthy_def racing_platform_def memory_platform_def)
  qed
  have refused:
    "(case verifySecret rejecting_platform ''I1'' ''123456'' (Some ''Ana'') (Some ''ana@x.com'')
           (world_of [] Map.empty) of
      (r, w') \<Rightarrow>
        r = Inl (new_Error ''Failed to save user data: Server Error. Please ensure your Appwrite collection has the correct attributes: fullName, email, avatar, and accounId (or accountId).'')
        \<and> cookieStore w' = Map.empty
        \<and> users w' = []
        \<and> calls w' =
            [Call_createSession ''I1'' ''123456'', Call_account_get ''secret1'',
             Call_listDocuments [Query_equal ''email'' [''ana@x.com'']],
             Call_createDocument ''unique''
               \<lparr>doc_fullName = trim ''Ana'', doc_email = toLowerCase (trim ''ana@x.com''),
                doc_avatar = ''avatar.png'', doc_accountId = Some ''I1''\<rparr>,
             Call_listDocuments [Query_equal ''email'' [''ana@x.com'']]])"
  proof -
    let ?w = "world_of [] Map.empty"
    let ?s = "\<lparr>session_id = ''S1'', secret = ''secret1''\<rparr>"
    let ?a = "\<lparr>account_id = ''I1''\<rparr>"
    let ?data = "\<lparr>doc_fullName = trim ''Ana'', doc_email = toLowerCase (trim ''ana@x.com''),
        doc_avatar = avatarPlaceholderUrl rejecting_platform,
        doc_accountId = Some (account_id ?a)\<rparr>"
    have name: "''Ana'' \<noteq> []" and email: "''ana@x.com'' \<noteq> []" by simp_all
    have session: "createSession rejecting_platform (directory ?w) ''I1'' ''123456'' = (Inr ?s, ())"
      by (simp add: rejecting_platform_def memory_platform_def)
    have who: "account_get rejecting_platform () (secret ?s) = (Inr ?a, ())"
      by (simp add: rejecting_platform_def memory_platform_def)
    have lookup: "listDocuments rejecting_platform (users ?w) [Query_equal ''email'' [''ana@x.com'']]
        = (Inr \<lparr>total = 0, documents = []\<rparr>, [])"
      by (simp add: rejecting_platform_def memory_platform_def memory_listDocuments_def
            world_of_def)
    have nobody: "first_document \<lparr>total = 0, documents = []\<rparr> = None"
      by (simp add: first_document_def)
    have rejected: "createDocument rejecting_platform []
          (ID_unique rejecting_platform (ids_generated ?w)) ?data
        = (Inl (AppwriteException ''Server Error'' 500), [])"
      by (simp add: rejecting_platform_def)
    have again: "listDocuments rejecting_platform [] [Query_equal ''email'' [''ana@x.com'']]
        = (Inr \<lparr>total = 0, documents = []\<rparr>, [])"
      by (simp add: rejecting_platform_def memory_platform_def memory_listDocuments_def)
    from verifySecret_create_failed
      [OF rejecting_admin session who name email lookup nobody refl rejected again]
    show ?thesis
      by (simp add: nobody save_failed_surfaced world_of_def)
         (simp add: rejecting_platform_def memory_platform_def)
  qed
  from won refused show ?thesis by (rule conjI)
qed

end
